theory Spec2Isabelle
  imports Complex_Main "HOL-Library.Multiset"
begin

section \<open>Python floats\<close>

text \<open>
  A Python \<^verbatim>\<open>float\<close> (and a numpy \<^verbatim>\<open>float64\<close>) is either a finite number, one of the two
  infinities, or NaN.  Finite values are carried as reals; the sign of zero is not tracked.
  Comparisons follow IEEE 754: every ordered comparison with NaN is false.
\<close>

datatype pyfloat = Fin real | PInf | NInf | NaN

fun flt :: "pyfloat \<Rightarrow> pyfloat \<Rightarrow> bool" where
  "flt NaN _ = False"
| "flt _ NaN = False"
| "flt (Fin a) (Fin b) = (a < b)"
| "flt (Fin a) PInf = True"
| "flt (Fin a) NInf = False"
| "flt PInf _ = False"
| "flt NInf NInf = False"
| "flt NInf _ = True"

definition fgt :: "pyfloat \<Rightarrow> pyfloat \<Rightarrow> bool" where
  "fgt a b = flt b a"

fun feq :: "pyfloat \<Rightarrow> pyfloat \<Rightarrow> bool" where
  "feq NaN _ = False"
| "feq _ NaN = False"
| "feq a b = (a = b)"

definition fle :: "pyfloat \<Rightarrow> pyfloat \<Rightarrow> bool" where
  "fle a b = (flt a b \<or> feq a b)"

definition fge :: "pyfloat \<Rightarrow> pyfloat \<Rightarrow> bool" where
  "fge a b = fle b a"

subsection \<open>Arithmetic on the extended values\<close>

text \<open>
  The value an operation has before rounding: exact on finite operands, with the IEEE rules
  for infinities and NaN.  Division never raises: a non-zero finite number over zero is an
  infinity, zero over zero is NaN (this is what numpy and pandas do; the zero is read as +0).
\<close>

fun fneg :: "pyfloat \<Rightarrow> pyfloat" where
  "fneg (Fin a) = Fin (- a)"
| "fneg PInf = NInf"
| "fneg NInf = PInf"
| "fneg NaN = NaN"

fun fadd :: "pyfloat \<Rightarrow> pyfloat \<Rightarrow> pyfloat" where
  "fadd NaN _ = NaN"
| "fadd _ NaN = NaN"
| "fadd (Fin a) (Fin b) = Fin (a + b)"
| "fadd (Fin a) PInf = PInf"
| "fadd (Fin a) NInf = NInf"
| "fadd PInf NInf = NaN"
| "fadd PInf _ = PInf"
| "fadd NInf PInf = NaN"
| "fadd NInf _ = NInf"

definition fsub :: "pyfloat \<Rightarrow> pyfloat \<Rightarrow> pyfloat" where
  "fsub a b = fadd a (fneg b)"

definition inf_of_sign :: "real \<Rightarrow> pyfloat" where
  "inf_of_sign s = (if s < 0 then NInf else if 0 < s then PInf else NaN)"

fun fmul :: "pyfloat \<Rightarrow> pyfloat \<Rightarrow> pyfloat" where
  "fmul NaN _ = NaN"
| "fmul _ NaN = NaN"
| "fmul (Fin a) (Fin b) = Fin (a * b)"
| "fmul (Fin a) PInf = inf_of_sign a"
| "fmul (Fin a) NInf = inf_of_sign (- a)"
| "fmul PInf (Fin b) = inf_of_sign b"
| "fmul NInf (Fin b) = inf_of_sign (- b)"
| "fmul PInf PInf = PInf"
| "fmul PInf NInf = NInf"
| "fmul NInf PInf = NInf"
| "fmul NInf NInf = PInf"

fun fdiv :: "pyfloat \<Rightarrow> pyfloat \<Rightarrow> pyfloat" where
  "fdiv NaN _ = NaN"
| "fdiv _ NaN = NaN"
| "fdiv (Fin a) (Fin b) = (if b = 0 then inf_of_sign a else Fin (a / b))"
| "fdiv (Fin a) PInf = Fin 0"
| "fdiv (Fin a) NInf = Fin 0"
| "fdiv PInf (Fin b) = (if b < 0 then NInf else PInf)"
| "fdiv NInf (Fin b) = (if b < 0 then PInf else NInf)"
| "fdiv PInf _ = NaN"
| "fdiv NInf _ = NaN"

subsection \<open>Rounding to binary64\<close>

text \<open>
  Python's own float arithmetic (and numpy's on scalars and in \<^verbatim>\<open>np.mean\<close>) rounds every
  result to the nearest binary64 number, ties to the even significand.  \<open>ilog2 x\<close> is the
  binade of a positive \<open>x\<close>: the \<open>e\<close> with \<open>2^e \<le> x < 2^(e+1)\<close>.
\<close>

function ilog2_up :: "real \<Rightarrow> int" where
  "ilog2_up x = (if 2 \<le> x then 1 + ilog2_up (x / 2) else 0)"
  by pat_completeness auto
termination
  by (relation "measure (\<lambda>x. nat \<lfloor>x\<rfloor>)") (auto, linarith)

function ilog2_down :: "real \<Rightarrow> int" where
  "ilog2_down x = (if 0 < x \<and> x < 1 then ilog2_down (x * 2) - 1 else 0)"
  by pat_completeness auto
termination
proof (relation "measure (\<lambda>x. nat \<lceil>1 / x\<rceil>)")
  show "wf (measure (\<lambda>x. nat \<lceil>1 / x\<rceil>))" by simp
next
  fix x :: real
  assume a: "0 < x \<and> x < 1"
  then have y: "1 < 1 / x" by simp
  have "1 / (x * 2) \<le> of_int (\<lceil>1 / x\<rceil> - 1)"
  proof (cases "1 / x \<le> 2")
    case True
    have "2 \<le> \<lceil>1 / x\<rceil>" using y by linarith
    moreover have "1 / (x * 2) \<le> 1" using True a by (simp add: field_simps)
    ultimately show ?thesis by linarith
  next
    case False
    then have "1 / (x * 2) \<le> 1 / x - 1" using a by (simp add: field_simps)
    then show ?thesis by linarith
  qed
  then have "\<lceil>1 / (x * 2)\<rceil> < \<lceil>1 / x\<rceil>" by (simp add: ceiling_less_iff)
  moreover have "0 < \<lceil>1 / x\<rceil>" using y by linarith
  ultimately show "(x * 2, x) \<in> measure (\<lambda>x. nat \<lceil>1 / x\<rceil>)" by simp
qed

declare ilog2_up.simps [simp del] ilog2_down.simps [simp del]

definition ilog2 :: "real \<Rightarrow> int" where
  "ilog2 x = (if 1 \<le> x then ilog2_up x else ilog2_down x)"

definition round_half_even :: "real \<Rightarrow> int" where
  "round_half_even x =
     (let f = \<lfloor>x\<rfloor>; d = x - of_int f
      in if d < 1 / 2 then f else if 1 / 2 < d then f + 1 else if even f then f else f + 1)"

text \<open>
  The quantum of a normal number in binade \<open>e\<close> is \<open>2^(e-52)\<close>; below \<open>2^-1022\<close> it stays
  \<open>2^-1074\<close> (subnormals).  A result that rounds up to \<open>2^1024\<close> overflows to an infinity.
\<close>

definition rnd64 :: "real \<Rightarrow> pyfloat" where
  "rnd64 x =
     (if x = 0 then Fin 0
      else let a = \<bar>x\<bar>;
               e = ilog2 a;
               q = 2 powi (max e (- 1022) - 52);
               k = round_half_even (a / q)
           in if 1023 < e \<or> (e = 1023 \<and> k = 2 ^ 53) then (if x < 0 then NInf else PInf)
              else Fin (if x < 0 then - (of_int k * q) else of_int k * q))"

text \<open>The rounding of a positive normal number of binade \<open>e\<close>, as a real.\<close>

definition rd :: "int \<Rightarrow> real \<Rightarrow> real" where
  "rd e x = of_int (round_half_even (x / 2 powi (e - 52))) * 2 powi (e - 52)"

fun round64 :: "pyfloat \<Rightarrow> pyfloat" where
  "round64 (Fin a) = rnd64 a"
| "round64 x = x"

definition py_lit :: "real \<Rightarrow> pyfloat" where
  \<comment> \<open>a decimal literal of the source, read as the nearest binary64 number\<close>
  "py_lit r = rnd64 r"

definition py_add :: "pyfloat \<Rightarrow> pyfloat \<Rightarrow> pyfloat" where
  "py_add a b = round64 (fadd a b)"

definition py_sub :: "pyfloat \<Rightarrow> pyfloat \<Rightarrow> pyfloat" where
  "py_sub a b = round64 (fsub a b)"

definition py_mul :: "pyfloat \<Rightarrow> pyfloat \<Rightarrow> pyfloat" where
  "py_mul a b = round64 (fmul a b)"

definition np_div :: "pyfloat \<Rightarrow> pyfloat \<Rightarrow> pyfloat" where
  \<comment> \<open>numpy's float64 division: no ZeroDivisionError, an infinity or NaN instead\<close>
  "np_div a b = round64 (fdiv a b)"

definition py_min :: "pyfloat \<Rightarrow> pyfloat \<Rightarrow> pyfloat" where
  \<comment> \<open>\<^verbatim>\<open>min(a, b)\<close>: the later argument wins only when it is strictly smaller\<close>
  "py_min a b = (if flt b a then b else a)"

fun py_round :: "nat \<Rightarrow> pyfloat \<Rightarrow> pyfloat" where
  \<comment> \<open>\<^verbatim>\<open>round(x, nd)\<close>: the exact value rounded half-even to \<open>nd\<close> decimals, then read back\<close>
  "py_round nd (Fin a) = rnd64 (of_int (round_half_even (a * 10 ^ nd)) / 10 ^ nd)"
| "py_round nd x = x"

subsection \<open>Formatting\<close>

text \<open>\<^verbatim>\<open>f"{x:.1f}"\<close> and \<^verbatim>\<open>f"{x:.2f}"\<close>: fixed-point notation, the exact value rounded half-even.\<close>

definition digit_char :: "nat \<Rightarrow> char" where
  "digit_char d = ''0123456789'' ! d"

fun dec_digits :: "nat \<Rightarrow> string" where
  "dec_digits n = (if n < 10 then [digit_char n] else dec_digits (n div 10) @ [digit_char (n mod 10)])"

declare dec_digits.simps [simp del]

definition pad_zeros :: "nat \<Rightarrow> string \<Rightarrow> string" where
  "pad_zeros w s = replicate (w - length s) CHR ''0'' @ s"

fun format_f :: "nat \<Rightarrow> pyfloat \<Rightarrow> string" where
  "format_f nd (Fin a) =
     (let k = nat (round_half_even (\<bar>a\<bar> * 10 ^ nd));
          body = dec_digits (k div 10 ^ nd) @ (if nd = 0 then [] else ''.'' @ pad_zeros nd (dec_digits (k mod 10 ^ nd)))
      in if a < 0 then ''-'' @ body else body)"
| "format_f nd PInf = ''inf''"
| "format_f nd NInf = ''-inf''"
| "format_f nd NaN = ''nan''"

section \<open>The recommendation scorer\<close>

record strategy =
  strategy :: string
  risk :: string
  expected_return :: string
  rationale :: string

record recommendation =
  action :: string
  confidence :: pyfloat
  holding_period :: string
  alternatives :: "strategy list"
  reasoning :: string

definition alternatives_catalog :: "strategy list" where
  "alternatives_catalog =
     [\<lparr>strategy = ''Index Funds (S&P 500, NASDAQ)'', risk = ''Low-Medium'',
       expected_return = ''7-10% annually'',
       rationale = ''Diversified exposure with lower volatility''\<rparr>,
      \<lparr>strategy = ''Bond ETFs'', risk = ''Low'',
       expected_return = ''3-5% annually'',
       rationale = ''Stable income with capital preservation''\<rparr>,
      \<lparr>strategy = ''Dividend Stocks'', risk = ''Medium'',
       expected_return = ''4-7% annually'',
       rationale = ''Regular income with potential capital appreciation''\<rparr>]"

text \<open>
  \<^verbatim>\<open>recommendation_score\<close> of \<^verbatim>\<open>_generate_recommendation\<close> after its three rule
  blocks (RSI, trend, price change).
\<close>

definition recommendation_score :: "pyfloat \<Rightarrow> string \<Rightarrow> pyfloat \<Rightarrow> int" where
  "recommendation_score rsi trend price_change =
     (let s0 = 0;
          s1 = (if flt rsi (Fin 30) then s0 + 2
                else if fgt rsi (Fin 70) then s0 - 2
                else if fle (Fin 30) rsi \<and> fle rsi (Fin 50) then s0 + 1
                else s0);
          s2 = (if trend = ''bullish'' then s1 + 1
                else if trend = ''bearish'' then s1 - 1
                else s1);
          s3 = (if fgt price_change (Fin 5) then s2 - 1
                else if flt price_change (Fin (- 5)) then s2 + 1
                else s2)
      in s3)"

text \<open>The confidence after the volatility rule, before the action is decided.\<close>

definition base_confidence :: "pyfloat \<Rightarrow> pyfloat" where
  "base_confidence volatility =
     (let confidence = py_lit (5 / 10)
      in if fgt volatility (Fin 3) then py_sub confidence (py_lit (2 / 10)) else confidence)"

definition generate_recommendation ::
  "pyfloat \<Rightarrow> string \<Rightarrow> pyfloat \<Rightarrow> pyfloat \<Rightarrow> string option \<Rightarrow> recommendation" where
  "generate_recommendation rsi trend price_change volatility llm_insights =
     (let score = recommendation_score rsi trend price_change;
          confidence = base_confidence volatility;
          (act, confidence, holding) =
            (if 2 \<le> score then
               (''BUY'', py_min (py_lit (9 / 10)) (py_add confidence (py_lit (2 / 10))),
                if flt volatility (Fin 2) then ''medium-term (1-4 weeks)'' else ''short-term (1-7 days)'')
             else if score \<le> - 2 then
               (''SELL'', py_min (py_lit (9 / 10)) (py_add confidence (py_lit (2 / 10))), ''immediate'')
             else
               (''WAIT'', py_lit (6 / 10), ''monitor for 1-2 weeks''))
      in \<lparr>action = act,
          confidence = py_round 2 confidence,
          holding_period = holding,
          alternatives = alternatives_catalog,
          reasoning = ''RSI: '' @ format_f 1 rsi @ '', Trend: '' @ trend @
                      '', Price Change: '' @ format_f 2 price_change @ ''%''\<rparr>)"

section \<open>The indicator engine\<close>

text \<open>
  One row of the input frame, after \<^verbatim>\<open>pd.to_numeric(..., errors='coerce')\<close>: a cell that does
  not parse as a number is NaN.  The timestamp is the sort key.
\<close>

record bar =
  timestamp :: int
  open_price :: pyfloat
  high :: pyfloat
  low :: pyfloat
  close :: pyfloat
  volume :: pyfloat

record indicator_row = bar +
  sma_20 :: pyfloat
  sma_50 :: pyfloat
  ema_12 :: pyfloat
  ema_26 :: pyfloat
  macd :: pyfloat
  macd_signal :: pyfloat
  macd_histogram :: pyfloat
  rsi :: pyfloat
  bb_middle :: pyfloat
  bb_upper :: pyfloat
  bb_lower :: pyfloat
  volume_sma :: pyfloat
  volume_ratio :: pyfloat
  price_change :: pyfloat
  volatility :: pyfloat
  trend :: string

subsection \<open>pandas window operations\<close>

text \<open>
  The pandas kernels are modelled by the real number they approximate: a rolling mean is the
  mean of its window, a rolling standard deviation the sample standard deviation.  The
  program computes them in binary64, so a value of the model is the value of the program
  only where that computation is exact, as it is in a window of equal values and on the
  small whole numbers of the frames below.  The properties of arbitrary series proved
  below do not rest on the exact value: they compare a column with the same kernel on other
  arguments, or concern rows where a kernel has one observation or none.
  Their elementwise arithmetic is \<open>fadd\<close>, \<open>fsub\<close>, \<open>fmul\<close>, \<open>fdiv\<close>: nothing raises,
  a division by zero is an infinity or NaN.  Before a window operation pandas replaces the
  infinities by NaN; NaN cells are left out of a window.
\<close>

fun prep_value :: "pyfloat \<Rightarrow> real option" where
  "prep_value (Fin a) = Some a"
| "prep_value _ = None"

definition observations :: "pyfloat list \<Rightarrow> real list" where
  "observations xs = List.map_filter prep_value xs"

definition of_option :: "real option \<Rightarrow> pyfloat" where
  "of_option x = (case x of Some a \<Rightarrow> Fin a | None \<Rightarrow> NaN)"

definition window :: "nat \<Rightarrow> 'a list \<Rightarrow> nat \<Rightarrow> 'a list" where
  \<comment> \<open>the rows \<open>i - w + 1 .. i\<close> of the column, fewer at the start\<close>
  "window w xs i = drop (Suc i - w) (take (Suc i) xs)"

definition mean :: "real list \<Rightarrow> real" where
  "mean v = sum_list v / of_nat (length v)"

definition window_mean :: "pyfloat list \<Rightarrow> pyfloat" where
  \<comment> \<open>\<^verbatim>\<open>min_periods=1\<close>: one observation is enough\<close>
  "window_mean win = (let v = observations win in if 1 \<le> length v then Fin (mean v) else NaN)"

definition window_std :: "pyfloat list \<Rightarrow> pyfloat" where
  \<comment> \<open>sample standard deviation (\<^verbatim>\<open>ddof=1\<close>): it needs more than one observation\<close>
  "window_std win =
     (let v = observations win; n = length v
      in if 1 \<le> n \<and> 1 < n
         then Fin (sqrt (sum_list (map (\<lambda>x. (x - mean v) ^ 2) v) / of_nat (n - 1)))
         else NaN)"

definition rolling_mean :: "nat \<Rightarrow> pyfloat list \<Rightarrow> pyfloat list" where
  "rolling_mean w xs = map (\<lambda>i. window_mean (window w xs i)) [0..<length xs]"

definition rolling_std :: "nat \<Rightarrow> pyfloat list \<Rightarrow> pyfloat list" where
  "rolling_std w xs = map (\<lambda>i. window_std (window w xs i)) [0..<length xs]"

text \<open>
  \<^verbatim>\<open>ewm(span=n, adjust=False).mean()\<close>: with \<open>\<alpha> = 2 / (n + 1)\<close>, the first observation
  seeds the average and each later one gives \<open>(1 - \<alpha>) * avg + \<alpha> * x\<close>.  A missing cell
  repeats the average and ages its weight (\<^verbatim>\<open>ignore_na=False\<close>).  The state is the average
  so far and the weight of the old average.
\<close>

fun ewm_scan :: "real \<Rightarrow> real option \<Rightarrow> real \<Rightarrow> real option list \<Rightarrow> real option list" where
  "ewm_scan \<alpha> weighted old_wt [] = []"
| "ewm_scan \<alpha> None old_wt (cur # rest) = cur # ewm_scan \<alpha> cur old_wt rest"
| "ewm_scan \<alpha> (Some w) old_wt (None # rest) = Some w # ewm_scan \<alpha> (Some w) (old_wt * (1 - \<alpha>)) rest"
| "ewm_scan \<alpha> (Some w) old_wt (Some c # rest) =
     (let ow = old_wt * (1 - \<alpha>);
          w' = (if w \<noteq> c then (ow * w + \<alpha> * c) / (ow + \<alpha>) else w)
      in Some w' # ewm_scan \<alpha> (Some w') 1 rest)"

definition ewm_mean :: "nat \<Rightarrow> pyfloat list \<Rightarrow> pyfloat list" where
  "ewm_mean n xs = map of_option (ewm_scan (2 / (of_nat n + 1)) None 1 (map prep_value xs))"

definition diff :: "pyfloat list \<Rightarrow> pyfloat list" where
  \<comment> \<open>\<^verbatim>\<open>Series.diff()\<close>: the first row has no predecessor\<close>
  "diff xs = (case xs of [] \<Rightarrow> [] | _ # rest \<Rightarrow> NaN # map2 (\<lambda>prev cur. fsub cur prev) xs rest)"

fun ffill :: "pyfloat \<Rightarrow> pyfloat list \<Rightarrow> pyfloat list" where
  "ffill prev [] = []"
| "ffill prev (NaN # xs) = prev # ffill prev xs"
| "ffill prev (x # xs) = x # ffill x xs"

definition pct_change :: "pyfloat list \<Rightarrow> pyfloat list" where
  \<comment> \<open>\<^verbatim>\<open>Series.pct_change()\<close> of pandas before 3.0: forward fill, then \<open>x / previous - 1\<close>\<close>
  "pct_change xs =
     (case ffill NaN xs of [] \<Rightarrow> []
      | _ # rest \<Rightarrow> NaN # map2 (\<lambda>prev cur. fsub (fdiv cur prev) (Fin 1)) (ffill NaN xs) rest)"

subsection \<open>The columns\<close>

definition rsi_gain :: "pyfloat list \<Rightarrow> pyfloat list" where
  "rsi_gain closes =
     rolling_mean 14 (map (\<lambda>d. if fgt d (Fin 0) then d else Fin 0) (diff closes))"

definition rsi_loss :: "pyfloat list \<Rightarrow> pyfloat list" where
  "rsi_loss closes =
     rolling_mean 14 (map fneg (map (\<lambda>d. if flt d (Fin 0) then d else Fin 0) (diff closes)))"

definition rsi_of :: "pyfloat \<Rightarrow> pyfloat \<Rightarrow> pyfloat" where
  \<comment> \<open>\<^verbatim>\<open>rs = gain / loss\<close>, \<^verbatim>\<open>100 - (100 / (1 + rs))\<close>\<close>
  "rsi_of gain loss = fsub (Fin 100) (fdiv (Fin 100) (fadd (Fin 1) (fdiv gain loss)))"

definition rsi_column :: "pyfloat list \<Rightarrow> pyfloat list" where
  "rsi_column closes = map2 rsi_of (rsi_gain closes) (rsi_loss closes)"

definition macd_column :: "pyfloat list \<Rightarrow> pyfloat list" where
  "macd_column closes = map2 fsub (ewm_mean 12 closes) (ewm_mean 26 closes)"

definition bb_upper_column :: "pyfloat list \<Rightarrow> pyfloat list" where
  "bb_upper_column closes =
     map2 fadd (rolling_mean 20 closes) (map (\<lambda>s. fmul s (Fin 2)) (rolling_std 20 closes))"

definition bb_lower_column :: "pyfloat list \<Rightarrow> pyfloat list" where
  "bb_lower_column closes =
     map2 fsub (rolling_mean 20 closes) (map (\<lambda>s. fmul s (Fin 2)) (rolling_std 20 closes))"

definition trend_of :: "pyfloat \<Rightarrow> pyfloat \<Rightarrow> string" where
  \<comment> \<open>\<^verbatim>\<open>'neutral'\<close>, overwritten where close > sma_20, then where close < sma_20\<close>
  "trend_of c s =
     (let t0 = ''neutral'';
          t1 = (if fgt c s then ''bullish'' else t0);
          t2 = (if flt c s then ''bearish'' else t1)
      in t2)"

text \<open>
  \<^verbatim>\<open>df.sort_values('timestamp')\<close> is called without \<^verbatim>\<open>kind\<close>, so pandas runs its default
  algorithm, quicksort, which is not stable.  pandas computes from the timestamp column alone
  an order of the row numbers that puts the timestamps in ascending order, and takes the rows
  in that order.  Which of the orders that do so comes out is not fixed by the source: rows
  with equal timestamps may appear in either order, whatever their order in the input.  A
  sorter is any such function of the key column; the engine is modelled for every sorter.
  Two sorters are named: the stable one, and one that returns rows with equal timestamps in
  the reverse of their input order.
\<close>

definition is_argsort :: "(int list \<Rightarrow> nat list) \<Rightarrow> bool" where
  "is_argsort f =
     (\<forall>keys. mset (f keys) = mset [0..<length keys] \<and> sorted (map ((!) keys) (f keys)))"

definition stable_argsort :: "int list \<Rightarrow> nat list" where
  "stable_argsort keys = sort_key ((!) keys) [0..<length keys]"

definition reversing_argsort :: "int list \<Rightarrow> nat list" where
  "reversing_argsort keys = sort_key ((!) keys) (rev [0..<length keys])"

typedef sorter = "{f. is_argsort f}"
  morphisms argsort Abs_sorter
proof
  show "stable_argsort \<in> {f. is_argsort f}"
    by (simp add: is_argsort_def stable_argsort_def)
qed

definition stable_sorter :: sorter where
  "stable_sorter = Abs_sorter stable_argsort"

definition reversing_sorter :: sorter where
  "reversing_sorter = Abs_sorter reversing_argsort"

definition sort_values :: "sorter \<Rightarrow> bar list \<Rightarrow> bar list" where
  \<comment> \<open>\<^verbatim>\<open>df.sort_values('timestamp').reset_index(drop=True)\<close>\<close>
  "sort_values srt df = map ((!) df) (argsort srt (map timestamp df))"

definition indicators_of_sorted :: "bar list \<Rightarrow> indicator_row list" where
  "indicators_of_sorted df =
     (let closes = map close df;
          volumes = map volume df;
          c_sma_20 = rolling_mean 20 closes;
          c_sma_50 = rolling_mean 50 closes;
          c_ema_12 = ewm_mean 12 closes;
          c_ema_26 = ewm_mean 26 closes;
          c_macd = macd_column closes;
          c_macd_signal = ewm_mean 9 c_macd;
          c_macd_histogram = map2 fsub c_macd c_macd_signal;
          c_rsi = rsi_column closes;
          c_bb_middle = rolling_mean 20 closes;
          c_bb_upper = bb_upper_column closes;
          c_bb_lower = bb_lower_column closes;
          c_volume_sma = rolling_mean 20 volumes;
          c_volume_ratio = map2 fdiv volumes c_volume_sma;
          c_price_change = pct_change closes;
          c_volatility = rolling_std 20 c_price_change;
          c_trend = map2 trend_of closes c_sma_20
      in map (\<lambda>i.
             \<lparr>timestamp = timestamp (df ! i), open_price = open_price (df ! i),
              high = high (df ! i), low = low (df ! i),
              close = close (df ! i), volume = volume (df ! i),
              sma_20 = c_sma_20 ! i, sma_50 = c_sma_50 ! i,
              ema_12 = c_ema_12 ! i, ema_26 = c_ema_26 ! i,
              macd = c_macd ! i, macd_signal = c_macd_signal ! i,
              macd_histogram = c_macd_histogram ! i,
              rsi = c_rsi ! i,
              bb_middle = c_bb_middle ! i, bb_upper = c_bb_upper ! i, bb_lower = c_bb_lower ! i,
              volume_sma = c_volume_sma ! i, volume_ratio = c_volume_ratio ! i,
              price_change = c_price_change ! i, volatility = c_volatility ! i,
              trend = c_trend ! i\<rparr>)
           [0..<length df])"

definition calculate_technical_indicators :: "sorter \<Rightarrow> bar list \<Rightarrow> indicator_row list" where
  "calculate_technical_indicators srt df =
     (if df = [] then [] else indicators_of_sorted (sort_values srt df))"

text \<open>Two small frames: one out of order, one with two rows at the same timestamp.\<close>

definition three_bars :: "bar list" where
  "three_bars =
     [\<lparr>timestamp = 3, open_price = Fin 12, high = Fin 13, low = Fin 11, close = Fin 12, volume = Fin 300\<rparr>,
      \<lparr>timestamp = 1, open_price = Fin 10, high = Fin 11, low = Fin 9, close = Fin 10, volume = Fin 100\<rparr>,
      \<lparr>timestamp = 2, open_price = Fin 11, high = Fin 12, low = Fin 10, close = Fin 11, volume = Fin 200\<rparr>]"

definition tie_series :: "bar list" where
  "tie_series =
     [\<lparr>timestamp = 1, open_price = Fin 10, high = Fin 11, low = Fin 9, close = Fin 10, volume = Fin 100\<rparr>,
      \<lparr>timestamp = 1, open_price = Fin 20, high = Fin 21, low = Fin 19, close = Fin 20, volume = Fin 300\<rparr>]"

text \<open>Twenty rows that all close at 100.\<close>

definition const_series :: "bar list" where
  "const_series =
     map (\<lambda>t. \<lparr>timestamp = int t, open_price = Fin 100, high = Fin 100, low = Fin 100,
                close = Fin 100, volume = Fin 1000\<rparr>) [0..<20]"

section \<open>The portfolio aggregator\<close>

subsection \<open>\<^verbatim>\<open>np.mean\<close>\<close>

text \<open>
  \<^verbatim>\<open>np.mean\<close> of a list adds the elements up in binary64 and divides by their number.
  numpy's sum is its pairwise summation: fewer than eight elements are added from left to
  right starting from 0.0; up to 128 elements go through eight running accumulators that
  are combined as a tree, the remainder being added one by one; a longer array is split in
  two halves (the first a multiple of eight).  The mean of no elements is 0.0 / 0, that is
  NaN, with a warning and no exception.
\<close>

fun sum8 :: "pyfloat list \<Rightarrow> pyfloat" where
  "sum8 [r0, r1, r2, r3, r4, r5, r6, r7] =
     py_add (py_add (py_add r0 r1) (py_add r2 r3)) (py_add (py_add r4 r5) (py_add r6 r7))"
| "sum8 rs = foldl py_add (Fin 0) rs"

function add_blocks :: "pyfloat list \<Rightarrow> pyfloat list \<Rightarrow> pyfloat list \<times> pyfloat list" where
  "add_blocks r xs =
     (if 8 \<le> length xs then add_blocks (map2 py_add r (take 8 xs)) (drop 8 xs) else (r, xs))"
  by pat_completeness auto
termination
  by (relation "measure (\<lambda>(r, xs). length xs)") auto

declare add_blocks.simps [simp del]

function pairwise_sum :: "pyfloat list \<Rightarrow> pyfloat" where
  "pairwise_sum a =
     (if length a < 8 then foldl py_add (Fin 0) a
      else if length a \<le> 128 then
        (case add_blocks (take 8 a) (drop 8 a) of (r, rest) \<Rightarrow> foldl py_add (sum8 r) rest)
      else py_add (pairwise_sum (take (length a div 2 - length a div 2 mod 8) a))
                  (pairwise_sum (drop (length a div 2 - length a div 2 mod 8) a)))"
  by pat_completeness auto
termination
  by (relation "measure length") auto

declare pairwise_sum.simps [simp del]

definition np_mean :: "pyfloat list \<Rightarrow> pyfloat" where
  "np_mean xs = np_div (pairwise_sum xs) (Fin (of_nat (length xs)))"

subsection \<open>Per-ticker analyses and the portfolio recommendation\<close>

text \<open>
  The aggregator reads two keys of each per-ticker dictionary, each through \<^verbatim>\<open>.get\<close>, so
  either may be absent.  The dictionary of analyses is kept as the list of its items, in
  insertion order.
\<close>

record analysis =
  a_recommendation :: "string option"
  a_confidence :: "pyfloat option"

record portfolio_recommendation =
  p_action :: string
  p_rationale :: string
  suggested_allocation :: string

definition count_recommendation :: "string \<Rightarrow> (string \<times> 'a analysis_scheme) list \<Rightarrow> nat" where
  \<comment> \<open>\<^verbatim>\<open>sum(1 for a in analyses.values() if a.get('recommendation') == r)\<close>\<close>
  "count_recommendation r analyses =
     length (filter (\<lambda>a. a_recommendation a = Some r) (map snd analyses))"

definition py_int_div :: "nat \<Rightarrow> nat \<Rightarrow> pyfloat" where
  \<comment> \<open>true division of two ints, divisor not 0: the quotient correctly rounded\<close>
  "py_int_div k n = rnd64 (of_nat k / of_nat n)"

definition avg_confidence :: "(string \<times> 'a analysis_scheme) list \<Rightarrow> pyfloat" where
  "avg_confidence analyses =
     np_mean (map (\<lambda>a. case a_confidence a of Some c \<Rightarrow> c | None \<Rightarrow> py_lit (5 / 10))
                  (map snd analyses))"

definition buy_ratio :: "(string \<times> 'a analysis_scheme) list \<Rightarrow> pyfloat" where
  "buy_ratio analyses =
     (if analyses \<noteq> [] then py_int_div (count_recommendation ''BUY'' analyses) (length analyses)
      else Fin 0)"

definition get_portfolio_recommendation ::
  "(string \<times> 'a analysis_scheme) list \<Rightarrow> portfolio_recommendation" where
  "get_portfolio_recommendation analyses =
     (if fgt (buy_ratio analyses) (py_lit (6 / 10)) \<and> fgt (avg_confidence analyses) (py_lit (7 / 10)) then
        \<lparr>p_action = ''AGGRESSIVE_BUY'',
         p_rationale = ''Strong buy signals across portfolio with high confidence'',
         suggested_allocation = ''70% stocks, 30% bonds''\<rparr>
      else if fgt (buy_ratio analyses) (py_lit (4 / 10)) then
        \<lparr>p_action = ''MODERATE_BUY'',
         p_rationale = ''Moderate buy signals, consider gradual entry'',
         suggested_allocation = ''50% stocks, 50% bonds''\<rparr>
      else if flt (buy_ratio analyses) (py_lit (3 / 10)) then
        \<lparr>p_action = ''DEFENSIVE'',
         p_rationale = ''Weak signals, consider defensive positioning'',
         suggested_allocation = ''30% stocks, 70% bonds/cash''\<rparr>
      else
        \<lparr>p_action = ''WAIT'',
         p_rationale = ''Mixed signals, wait for clearer direction'',
         suggested_allocation = ''40% stocks, 60% bonds/cash''\<rparr>)"

text \<open>
  An analysis as the scorer fills it in: the action under \<^verbatim>\<open>recommendation\<close>, the
  confidence under \<^verbatim>\<open>confidence\<close>.
\<close>

definition analysis_of :: "recommendation \<Rightarrow> analysis" where
  "analysis_of r = \<lparr>a_recommendation = Some (action r), a_confidence = Some (confidence r)\<rparr>"

definition six_buys :: "(string \<times> analysis) list" where
  "six_buys =
     map (\<lambda>t. (t, analysis_of (generate_recommendation (Fin 25) ''bullish'' (Fin 0) (Fin 1) None)))
         [''AAPL'', ''MSFT'', ''GOOG'', ''AMZN'', ''META'', ''NVDA'']"

section \<open>Per-ticker insights and the portfolio analysis\<close>

text \<open>
  The LLM call is outside the program: \<open>llm\<close> maps the prompt to the text
  \<^verbatim>\<open>_get_llm_analysis\<close> returns for it.  \<open>now\<close> is \<^verbatim>\<open>datetime.now().isoformat()\<close>.
\<close>

record technical_summary =
  ts_sma_20 :: pyfloat
  ts_sma_50 :: pyfloat
  ts_macd :: pyfloat
  ts_rsi :: pyfloat
  bb_position :: string

record insight_details =
  i_ticker :: string
  current_price :: pyfloat
  price_change_30d :: pyfloat
  i_volatility :: pyfloat
  i_rsi :: pyfloat
  i_trend :: string
  technical_summary :: technical_summary
  llm_insights :: "string option"
  i_holding_period :: string
  alternative_strategies :: "strategy list"
  i_analysis_date :: string

record market_insights = analysis +
  i_error :: "string option"
  details :: "insight_details option"

definition get_bb_position :: "indicator_row \<Rightarrow> string" where
  "get_bb_position d =
     (if fgt (close d) (bb_upper d) then ''above_upper''
      else if flt (close d) (bb_lower d) then ''below_lower''
      else ''within_bands'')"

definition newline :: string where
  "newline = [CHR 0x0A]"

definition create_analysis_prompt ::
  "string \<Rightarrow> pyfloat \<Rightarrow> pyfloat \<Rightarrow> pyfloat \<Rightarrow> pyfloat \<Rightarrow> string \<Rightarrow> indicator_row \<Rightarrow> string" where
  "create_analysis_prompt ticker price change_30d vol rsi_v trend_v technical_data =
     ''Analyze the following stock market data for '' @ ticker @
       '' and provide investment insights:'' @ newline @
     newline @
     ''Current Price: $'' @ format_f 2 price @ newline @
     ''30-Day Price Change: '' @ format_f 2 change_30d @ ''%'' @ newline @
     ''Volatility: '' @ format_f 2 vol @ ''%'' @ newline @
     ''RSI (Relative Strength Index): '' @ format_f 2 rsi_v @ newline @
     ''Trend: '' @ trend_v @ newline @
     newline @
     ''Technical Indicators:'' @ newline @
     ''- SMA 20: $'' @ format_f 2 (sma_20 technical_data) @ newline @
     ''- SMA 50: $'' @ format_f 2 (sma_50 technical_data) @ newline @
     ''- MACD: '' @ format_f 4 (macd technical_data) @ newline @
     ''- Bollinger Bands Position: '' @ get_bb_position technical_data @ newline @
     newline @
     ''Please provide:'' @ newline @
     ''1. Market trend analysis (bullish, bearish, or neutral)'' @ newline @
     ''2. Entry recommendation (BUY, SELL, or WAIT)'' @ newline @
     ''3. Suggested holding period (short-term: 1-7 days, medium-term: 1-4 weeks, long-term: 1+ months)'' @ newline @
     ''4. Risk assessment'' @ newline @
     ''5. Alternative investment strategies for safer gains (bonds, ETFs, index funds, etc.)'' @ newline @
     newline @
     ''Format your response as a structured analysis with clear recommendations.''"

definition generate_market_insights ::
  "(string \<Rightarrow> string option) \<Rightarrow> string \<Rightarrow> string \<Rightarrow> bar list \<Rightarrow> indicator_row list \<Rightarrow> market_insights" where
  "generate_market_insights llm now ticker stock_data technical_indicators =
     (if technical_indicators = [] then
        \<lparr>a_recommendation = Some ''WAIT'', a_confidence = Some (Fin 0),
         i_error = Some ''Insufficient data for analysis'', details = None\<rparr>
      else
        let latest = last technical_indicators;
            recent_data = drop (length technical_indicators - 30) technical_indicators;
            price = close latest;
            first_close = close (hd recent_data);
            change_30d = py_mul (np_div (py_sub price first_close) first_close) (Fin 100);
            vol = py_mul (volatility latest) (Fin 100);
            rsi_v = rsi latest;
            trend_v = trend latest;
            prompt = create_analysis_prompt ticker price change_30d vol rsi_v trend_v latest;
            llm_analysis = llm prompt;
            r = generate_recommendation rsi_v trend_v change_30d vol llm_analysis
        in \<lparr>a_recommendation = Some (action r), a_confidence = Some (confidence r),
            i_error = None,
            details = Some
              \<lparr>i_ticker = ticker, current_price = price, price_change_30d = change_30d,
               i_volatility = vol, i_rsi = rsi_v, i_trend = trend_v,
               technical_summary =
                 \<lparr>ts_sma_20 = sma_20 latest, ts_sma_50 = sma_50 latest, ts_macd = macd latest,
                  ts_rsi = rsi_v, bb_position = get_bb_position latest\<rparr>,
               llm_insights = llm_analysis,
               i_holding_period = holding_period r,
               alternative_strategies = alternatives r,
               i_analysis_date = now\<rparr>\<rparr>)"

record portfolio_summary =
  total_stocks :: nat
  buy_recommendations :: nat
  sell_recommendations :: nat
  wait_recommendations :: nat
  overall_sentiment :: string

record portfolio_analysis =
  individual_analyses :: "(string \<times> market_insights) list"
  portfolio_summary :: portfolio_summary
  portfolio_recommendation :: portfolio_recommendation
  analysis_date :: string

text \<open>
  The dictionary of stock data is the list of its items; a ticker with no data is skipped.
\<close>

definition analyze_multiple_stocks ::
  "sorter \<Rightarrow> (string \<Rightarrow> string option) \<Rightarrow> string \<Rightarrow> (string \<times> bar list) list \<Rightarrow>
     portfolio_analysis" where
  "analyze_multiple_stocks srt llm now stock_data_dict =
     (let analyses =
            map (\<lambda>(ticker, data).
                   (ticker, generate_market_insights llm now ticker data
                              (calculate_technical_indicators srt data)))
                (filter (\<lambda>(ticker, data). data \<noteq> []) stock_data_dict);
          buy_count = count_recommendation ''BUY'' analyses;
          sell_count = count_recommendation ''SELL'' analyses;
          wait_count = count_recommendation ''WAIT'' analyses;
          portfolio_sentiment =
            (if sell_count < buy_count then ''bullish''
             else if buy_count < sell_count then ''bearish'' else ''neutral'')
      in \<lparr>individual_analyses = analyses,
          portfolio_summary =
            \<lparr>total_stocks = length analyses, buy_recommendations = buy_count,
             sell_recommendations = sell_count, wait_recommendations = wait_count,
             overall_sentiment = portfolio_sentiment\<rparr>,
          portfolio_recommendation = get_portfolio_recommendation analyses,
          analysis_date = now\<rparr>)"

text \<open>
  The binary64 numbers nearest to 0.2, 0.3, 0.4, 0.6, 0.7 and 0.9, written out as fractions.
\<close>

definition d02 :: real where "d02 = 3602879701896397 / 18014398509481984"
definition d03 :: real where "d03 = 5404319552844595 / 18014398509481984"
definition d04 :: real where "d04 = 3602879701896397 / 9007199254740992"
definition d06 :: real where "d06 = 5404319552844595 / 9007199254740992"
definition d07 :: real where "d07 = 6305039478318694 / 9007199254740992"
definition d09 :: real where "d09 = 8106479329266893 / 9007199254740992"

text \<open>
  The binary64 sums 0.7 + 0.7, ... of two to six copies of 0.7, added from left to right,
  and the two neighbours of 0.7 among the binary64 numbers.
\<close>

definition d14 :: real where "d14 = 3152519739159347 / 2251799813685248"
definition d21 :: real where "d21 = 1182194902184755 / 562949953421312"
definition d28 :: real where "d28 = 3152519739159347 / 1125899906842624"
definition d35 :: real where "d35 = 7 / 2"
definition d42 :: real where "d42 = 4728779608739021 / 1125899906842624"
definition d07_below :: real where "d07_below = 6305039478318693 / 9007199254740992"
definition d07_above :: real where "d07_above = 6305039478318695 / 9007199254740992"

section \<open>Facts about binary64 rounding\<close>

lemma ilog2_up_bounds:
  "1 \<le> x \<Longrightarrow> 0 \<le> ilog2_up x \<and> 2 powi (ilog2_up x) \<le> x \<and> x < 2 powi (ilog2_up x + 1)"
proof (induction x rule: ilog2_up.induct)
  case (1 x)
  show ?case
  proof (cases "2 \<le> x")
    case True
    then have ih: "0 \<le> ilog2_up (x / 2) \<and> 2 powi (ilog2_up (x / 2)) \<le> x / 2
        \<and> x / 2 < 2 powi (ilog2_up (x / 2) + 1)"
      using "1.IH" by simp
    have e: "ilog2_up x = 1 + ilog2_up (x / 2)"
      using True by (subst ilog2_up.simps) simp
    show ?thesis
      using ih unfolding e by (simp add: power_int_add field_simps)
  next
    case False
    then have "ilog2_up x = 0" by (subst ilog2_up.simps) simp
    then show ?thesis using False "1.prems" by simp
  qed
qed

lemma ilog2_down_bounds:
  "0 < x \<Longrightarrow> x < 2 \<Longrightarrow> 2 powi (ilog2_down x) \<le> x \<and> x < 2 powi (ilog2_down x + 1)"
proof (induction x rule: ilog2_down.induct)
  case (1 x)
  show ?case
  proof (cases "x < 1")
    case True
    then have ih: "2 powi (ilog2_down (x * 2)) \<le> x * 2 \<and> x * 2 < 2 powi (ilog2_down (x * 2) + 1)"
      using "1.IH" "1.prems" by simp
    have e: "ilog2_down x = ilog2_down (x * 2) - 1"
      using True "1.prems" by (subst ilog2_down.simps) simp
    show ?thesis
      using ih unfolding e by (simp add: power_int_add power_int_diff field_simps)
  next
    case False
    then have "ilog2_down x = 0" by (subst ilog2_down.simps) simp
    then show ?thesis using False "1.prems" by simp
  qed
qed

lemma ilog2_bounds:
  assumes "0 < x"
  shows "2 powi (ilog2 x) \<le> x \<and> x < 2 powi (ilog2 x + 1)"
proof (cases "1 \<le> x")
  case True
  then show ?thesis using ilog2_up_bounds [of x] by (simp add: ilog2_def)
next
  case False
  then show ?thesis using ilog2_down_bounds [of x] assms by (simp add: ilog2_def)
qed

lemma powi2_less_imp_less:
  assumes "(2::real) powi a < 2 powi b"
  shows "a < b"
proof (rule ccontr)
  assume "\<not> a < b"
  then have "b \<le> a" by simp
  then have "(2::real) powi b \<le> 2 powi a" by (intro power_int_increasing) simp_all
  with assms show False by simp
qed

lemma ilog2_eqI:
  assumes "2 powi e \<le> x" and "x < 2 powi (e + 1)"
  shows "ilog2 x = e"
proof -
  have "(0::real) < 2 powi e" by (simp add: zero_less_power_int)
  then have pos: "0 < x" using assms(1) by linarith
  from ilog2_bounds [OF pos] have b: "2 powi (ilog2 x) \<le> x" "x < 2 powi (ilog2 x + 1)"
    by simp_all
  have "(2::real) powi e < 2 powi (ilog2 x + 1)" using assms(1) b(2) by linarith
  then have 1: "e < ilog2 x + 1" by (rule powi2_less_imp_less)
  have "(2::real) powi (ilog2 x) < 2 powi (e + 1)" using assms(2) b(1) by linarith
  then have 2: "ilog2 x < e + 1" by (rule powi2_less_imp_less)
  from 1 2 show ?thesis by simp
qed

lemma rnd64_normal:
  assumes "2 powi e \<le> x" and "x < 2 powi (e + 1)" and "- 1022 \<le> e" and "e < 1023"
  shows "rnd64 x = Fin (of_int (round_half_even (x / 2 powi (e - 52))) * 2 powi (e - 52))"
proof -
  have "(0::real) < 2 powi e" by (simp add: zero_less_power_int)
  then have pos: "0 < x" using assms(1) by linarith
  have e: "ilog2 x = e" by (rule ilog2_eqI [OF assms(1,2)])
  have a: "\<bar>x\<bar> = x" using pos by simp
  have m: "max e (- 1022) = e" using assms(3) by simp
  have n: "\<not> (1023 < e \<or> e = 1023 \<and> round_half_even (x / 2 powi (e - 52)) = 2 ^ 53)"
    using assms(4) by simp
  have "x \<noteq> 0" "\<not> x < 0" using pos by simp_all
  then show ?thesis unfolding rnd64_def a e m Let_def using n by (simp only: if_False)
qed

lemma lit_05: "py_lit (1 / 2) = Fin (1 / 2)"
  unfolding py_lit_def by (subst rnd64_normal [of "- 1"]) (simp_all add: round_half_even_def Let_def)

lemma lit_02: "py_lit (1 / 5) = Fin d02"
  unfolding py_lit_def d02_def by (subst rnd64_normal [of "- 3"]) (simp_all add: round_half_even_def Let_def)

lemma lit_06: "py_lit (3 / 5) = Fin d06"
  unfolding py_lit_def d06_def by (subst rnd64_normal [of "- 1"]) (simp_all add: round_half_even_def Let_def)

lemma lit_07: "py_lit (7 / 10) = Fin d07"
  unfolding py_lit_def d07_def by (subst rnd64_normal [of "- 1"]) (simp_all add: round_half_even_def Let_def)

lemma lit_09: "py_lit (9 / 10) = Fin d09"
  unfolding py_lit_def d09_def by (subst rnd64_normal [of "- 1"]) (simp_all add: round_half_even_def Let_def)

lemma sub_05_02: "py_sub (Fin (1 / 2)) (Fin d02) = Fin d03"
  unfolding py_sub_def fsub_def d02_def d03_def
  by (simp, subst rnd64_normal [of "- 2"]) (simp_all add: round_half_even_def Let_def)

lemma add_03_02: "py_add (Fin d03) (Fin d02) = Fin (1 / 2)"
  unfolding py_add_def d02_def d03_def
  by (simp, subst rnd64_normal [of "- 1"]) (simp_all add: round_half_even_def Let_def)

lemma add_05_02: "py_add (Fin (1 / 2)) (Fin d02) = Fin d07"
  unfolding py_add_def d02_def d07_def
  by (simp, subst rnd64_normal [of "- 1"]) (simp_all add: round_half_even_def Let_def)

lemma round2_05: "py_round 2 (Fin (1 / 2)) = Fin (1 / 2)"
  by (simp add: round_half_even_def Let_def, subst rnd64_normal [of "- 1"])
     (simp_all add: round_half_even_def Let_def)

lemma round2_06: "py_round 2 (Fin d06) = Fin d06"
  unfolding d06_def
  by (simp add: round_half_even_def Let_def, subst rnd64_normal [of "- 1"])
     (simp_all add: round_half_even_def Let_def)

lemma round2_07: "py_round 2 (Fin d07) = Fin d07"
  unfolding d07_def
  by (simp add: round_half_even_def Let_def, subst rnd64_normal [of "- 1"])
     (simp_all add: round_half_even_def Let_def)

subsection \<open>Rounding is monotone\<close>

lemma round_half_even_of_int: "round_half_even (of_int k) = k"
  by (simp add: round_half_even_def)

lemma round_half_even_bounds:
  "of_int (round_half_even x) \<le> x + 1 / 2 \<and> x - 1 / 2 \<le> of_int (round_half_even x)"
  unfolding round_half_even_def Let_def by (auto; linarith)

lemma round_half_even_mono:
  assumes "x \<le> y"
  shows "round_half_even x \<le> round_half_even y"
proof (cases "\<lfloor>x\<rfloor> = \<lfloor>y\<rfloor>")
  case True
  then show ?thesis
    using assms unfolding round_half_even_def Let_def by auto
next
  case False
  then have lt: "\<lfloor>x\<rfloor> < \<lfloor>y\<rfloor>" using assms floor_mono [of x y] by linarith
  have "round_half_even x \<le> \<lfloor>x\<rfloor> + 1"
    unfolding round_half_even_def Let_def by auto
  moreover have "\<lfloor>y\<rfloor> \<le> round_half_even y"
    unfolding round_half_even_def Let_def by auto
  ultimately show ?thesis using lt by linarith
qed

lemma rd_bounds:
  assumes "2 powi e \<le> x" and "x < 2 powi (e + 1)"
  shows "2 powi e \<le> rd e x \<and> rd e x \<le> 2 powi (e + 1)"
proof -
  let ?q = "(2::real) powi (e - 52)"
  have q: "0 < ?q" by (simp add: zero_less_power_int)
  have lo: "2 powi e = of_int (2 ^ 52) * ?q"
    by (simp add: power_int_diff)
  have hi: "2 powi (e + 1) = of_int (2 ^ 53) * ?q"
    by (simp add: power_int_diff power_int_add)
  have "of_int (2 ^ 52) \<le> x / ?q"
    using assms(1) q unfolding lo by (simp add: field_simps)
  then have "round_half_even (of_int (2 ^ 52)) \<le> round_half_even (x / ?q)"
    by (rule round_half_even_mono)
  then have a: "2 ^ 52 \<le> round_half_even (x / ?q)"
    unfolding round_half_even_of_int .
  have "x / ?q \<le> of_int (2 ^ 53)"
    using assms(2) q unfolding hi by (simp add: field_simps)
  then have "round_half_even (x / ?q) \<le> round_half_even (of_int (2 ^ 53))"
    by (rule round_half_even_mono)
  then have b: "round_half_even (x / ?q) \<le> 2 ^ 53"
    unfolding round_half_even_of_int .
  have "of_int (2 ^ 52) * ?q \<le> of_int (round_half_even (x / ?q)) * ?q"
    using a q by (intro mult_right_mono) (simp_all del: of_int_power of_int_numeral)
  moreover have "of_int (round_half_even (x / ?q)) * ?q \<le> of_int (2 ^ 53) * ?q"
    using b q by (intro mult_right_mono) (simp_all del: of_int_power of_int_numeral)
  ultimately show ?thesis unfolding lo hi rd_def by simp
qed

lemma rd_mono:
  assumes "2 powi e \<le> x" and "x \<le> y" and "y < 2 powi (e + 1)"
  shows "rd e x \<le> rd e y"
proof -
  let ?q = "(2::real) powi (e - 52)"
  have q: "0 < ?q" by (simp add: zero_less_power_int)
  have "x / ?q \<le> y / ?q" using assms(2) q by (simp add: divide_right_mono)
  then have "round_half_even (x / ?q) \<le> round_half_even (y / ?q)"
    by (rule round_half_even_mono)
  then show ?thesis unfolding rd_def using q by (intro mult_right_mono) simp_all
qed

lemma rnd64_mono:
  assumes lo: "2 powi (- 1022) \<le> u" and le: "u \<le> v" and hi: "v < 2 powi 1023"
  shows "\<exists>s t. rnd64 u = Fin s \<and> rnd64 v = Fin t \<and> s \<le> t \<and> 2 powi (ilog2 u) \<le> s"
proof -
  have "(0::real) < 2 powi (- 1022)" by (simp add: zero_less_power_int)
  then have pu: "0 < u" using lo by linarith
  then have pv: "0 < v" using le by linarith
  note bu = ilog2_bounds [OF pu] and bv = ilog2_bounds [OF pv]
  have "(2::real) powi (- 1022) < 2 powi (ilog2 u + 1)" using lo bu by linarith
  then have eu_lo: "- 1022 \<le> ilog2 u" using powi2_less_imp_less by fastforce
  have "(2::real) powi (ilog2 u) < 2 powi (ilog2 v + 1)" using bu bv le by linarith
  then have euv: "ilog2 u \<le> ilog2 v" using powi2_less_imp_less by fastforce
  have "(2::real) powi (ilog2 v) < 2 powi 1023" using hi bv by linarith
  then have ev_hi: "ilog2 v < 1023" by (rule powi2_less_imp_less)
  have ru: "rnd64 u = Fin (rd (ilog2 u) u)"
    unfolding rd_def using bu eu_lo euv ev_hi by (intro rnd64_normal) simp_all
  have rv: "rnd64 v = Fin (rd (ilog2 v) v)"
    unfolding rd_def using bv eu_lo euv ev_hi by (intro rnd64_normal) simp_all
  have "rd (ilog2 u) u \<le> rd (ilog2 v) v"
  proof (cases "ilog2 u = ilog2 v")
    case True
    then show ?thesis using rd_mono [of "ilog2 u" u v] bu bv le by simp
  next
    case False
    then have "ilog2 u + 1 \<le> ilog2 v" using euv by simp
    then have "(2::real) powi (ilog2 u + 1) \<le> 2 powi (ilog2 v)"
      by (intro power_int_increasing) simp_all
    moreover have "rd (ilog2 u) u \<le> 2 powi (ilog2 u + 1)" using rd_bounds bu by blast
    moreover have "2 powi (ilog2 v) \<le> rd (ilog2 v) v" using rd_bounds bv by blast
    ultimately show ?thesis by linarith
  qed
  moreover have "2 powi (ilog2 u) \<le> rd (ilog2 u) u" using rd_bounds bu by blast
  ultimately show ?thesis using ru rv by blast
qed

subsection \<open>Sums and means of copies of 0.7\<close>

lemma py_add_normal:
  assumes "2 powi e \<le> a + b" and "a + b < 2 powi (e + 1)" and "- 1022 \<le> e" and "e < 1023"
  shows "py_add (Fin a) (Fin b) = Fin (of_int (round_half_even ((a + b) / 2 powi (e - 52))) * 2 powi (e - 52))"
  unfolding py_add_def using rnd64_normal [OF assms] by simp

lemma np_div_normal:
  assumes "b \<noteq> 0" and "2 powi e \<le> a / b" and "a / b < 2 powi (e + 1)" and "- 1022 \<le> e" and "e < 1023"
  shows "np_div (Fin a) (Fin b) = Fin (of_int (round_half_even ((a / b) / 2 powi (e - 52))) * 2 powi (e - 52))"
  unfolding np_div_def using rnd64_normal [OF assms(2-5)] assms(1) by simp

lemma sum07_1: "py_add (Fin 0) (Fin d07) = Fin d07"
  unfolding d07_def by (subst py_add_normal [of "- 1"]) (simp_all add: round_half_even_def Let_def)

lemma sum07_2: "py_add (Fin d07) (Fin d07) = Fin d14"
  unfolding d07_def d14_def by (subst py_add_normal [of 0]) (simp_all add: round_half_even_def Let_def)

lemma sum07_3: "py_add (Fin d14) (Fin d07) = Fin d21"
  unfolding d07_def d14_def d21_def by (subst py_add_normal [of 1]) (simp_all add: round_half_even_def Let_def)

lemma sum07_4: "py_add (Fin d21) (Fin d07) = Fin d28"
  unfolding d07_def d21_def d28_def by (subst py_add_normal [of 1]) (simp_all add: round_half_even_def Let_def)

lemma sum07_5: "py_add (Fin d28) (Fin d07) = Fin d35"
  unfolding d07_def d28_def d35_def by (subst py_add_normal [of 1]) (simp_all add: round_half_even_def Let_def)

lemma sum07_6: "py_add (Fin d35) (Fin d07) = Fin d42"
  unfolding d07_def d35_def d42_def by (subst py_add_normal [of 2]) (simp_all add: round_half_even_def Let_def)

lemma mean07_1: "np_div (Fin d07) (Fin 1) = Fin d07"
  unfolding d07_def by (subst np_div_normal [of _ "- 1"]) (simp_all add: round_half_even_def Let_def)

lemma mean07_2: "np_div (Fin d14) (Fin 2) = Fin d07"
  unfolding d07_def d14_def by (subst np_div_normal [of _ "- 1"]) (simp_all add: round_half_even_def Let_def)

lemma mean07_3: "np_div (Fin d21) (Fin 3) = Fin d07_below"
  unfolding d07_below_def d21_def by (subst np_div_normal [of _ "- 1"]) (simp_all add: round_half_even_def Let_def)

lemma mean07_4: "np_div (Fin d28) (Fin 4) = Fin d07"
  unfolding d07_def d28_def by (subst np_div_normal [of _ "- 1"]) (simp_all add: round_half_even_def Let_def)

lemma mean07_5: "np_div (Fin d35) (Fin 5) = Fin d07"
  unfolding d07_def d35_def by (subst np_div_normal [of _ "- 1"]) (simp_all add: round_half_even_def Let_def)

lemma mean07_6: "np_div (Fin d42) (Fin 6) = Fin d07_above"
  unfolding d07_above_def d42_def by (subst np_div_normal [of _ "- 1"]) (simp_all add: round_half_even_def Let_def)

subsection \<open>The mean of up to five confidences\<close>

lemma py_add_le:
  assumes "0 \<le> a" and "a \<le> b" and "1 / 2 \<le> x" and "x \<le> y" and "b + y < 2 powi 1023"
    and t: "py_add (Fin b) (Fin y) = Fin t"
  shows "\<exists>s. py_add (Fin a) (Fin x) = Fin s \<and> 1 / 2 \<le> s \<and> s \<le> t"
proof -
  have half: "(2::real) powi (- 1) = 1 / 2" by simp
  have "(2::real) powi (- 1022) \<le> 2 powi (- 1)" by (intro power_int_increasing) simp_all
  then have lo: "2 powi (- 1022) \<le> a + x" using assms(1,3) half by linarith
  have le: "a + x \<le> b + y" using assms(2,4) by linarith
  from rnd64_mono [OF lo le assms(5)] obtain s t' where
    st: "rnd64 (a + x) = Fin s" "rnd64 (b + y) = Fin t'" "s \<le> t'" "2 powi (ilog2 (a + x)) \<le> s"
    by blast
  have pos: "0 < a + x" using assms(1,3) by linarith
  have "(2::real) powi (- 1) < 2 powi (ilog2 (a + x) + 1)"
    using ilog2_bounds [OF pos] assms(1,3) half by linarith
  then have "- 1 \<le> ilog2 (a + x)" using powi2_less_imp_less by fastforce
  then have "(2::real) powi (- 1) \<le> 2 powi (ilog2 (a + x))"
    by (intro power_int_increasing) simp_all
  then have "1 / 2 \<le> s" using st(4) half by linarith
  moreover have "t' = t" using t st(2) by (simp add: py_add_def)
  ultimately show ?thesis using st(1,3) by (simp add: py_add_def)
qed

lemma np_div_le:
  assumes "1 / 2 \<le> s" and "s \<le> t" and "0 < n" and "n \<le> 8" and "t \<le> 8"
    and m: "np_div (Fin t) (Fin (of_nat n)) = Fin m"
  shows "\<exists>m'. np_div (Fin s) (Fin (of_nat n)) = Fin m' \<and> m' \<le> m"
proof -
  have n: "(0::real) < of_nat n" "(of_nat n :: real) \<le> 8" using assms(3,4) by simp_all
  have "(2::real) powi (- 1022) \<le> 2 powi (- 4)" by (intro power_int_increasing) simp_all
  moreover have "(2::real) powi (- 4) = 1 / 16" by simp
  moreover have "1 / 16 \<le> s / of_nat n"
  proof -
    have "1 / 16 * of_nat n \<le> (1 / 2 :: real)" using n by simp
    then have "1 / 16 * of_nat n \<le> s" using assms(1) by linarith
    then show ?thesis using n by (simp add: field_simps)
  qed
  ultimately have lo: "2 powi (- 1022) \<le> s / of_nat n" by linarith
  have le: "s / of_nat n \<le> t / of_nat n" using assms(2) n by (simp add: divide_right_mono)
  have "t / of_nat n \<le> t" using n assms(1,2,3) by (simp add: field_simps mult_le_cancel_left1) 
  moreover have "(8::real) < 2 powi 1023"
  proof -
    have "(2::real) powi 3 < 2 powi 1023" by (intro power_int_strict_increasing) simp_all
    then show ?thesis by simp
  qed
  ultimately have hi: "t / of_nat n < 2 powi 1023" using assms(5) by linarith
  from rnd64_mono [OF lo le hi] obtain a b where
    ab: "rnd64 (s / of_nat n) = Fin a" "rnd64 (t / of_nat n) = Fin b" "a \<le> b"
    by blast
  have "b = m" using m ab(2) n by (simp add: np_div_def)
  then show ?thesis using ab n by (simp add: np_div_def)
qed

lemma eight_less_huge: "(8::real) < 2 powi 1023"
proof -
  have "(2::real) powi 3 < 2 powi 1023" by (intro power_int_strict_increasing) simp_all
  then show ?thesis by simp
qed

lemma prefix_step:
  assumes P: "\<And>ys. length ys = n \<Longrightarrow> \<forall>x\<in>set ys. 1 / 2 \<le> x \<and> x \<le> d07 \<Longrightarrow>
                \<exists>s. foldl py_add (Fin 0) (map Fin ys) = Fin s \<and> 0 \<le> s \<and> s \<le> c"
    and A: "py_add (Fin c) (Fin d07) = Fin c'"
    and B: "c \<le> 4"
    and len: "length xs = Suc n"
    and xs: "\<forall>x\<in>set xs. 1 / 2 \<le> x \<and> x \<le> d07"
  shows "\<exists>s. foldl py_add (Fin 0) (map Fin xs) = Fin s \<and> 1 / 2 \<le> s \<and> s \<le> c'"
proof -
  from len obtain ys x where split: "xs = ys @ [x]" and ly: "length ys = n"
    by (metis length_Suc_conv_rev)
  from xs split have x: "1 / 2 \<le> x" "x \<le> d07" and ys: "\<forall>x\<in>set ys. 1 / 2 \<le> x \<and> x \<le> d07"
    by simp_all
  from P [OF ly ys] obtain s where s: "foldl py_add (Fin 0) (map Fin ys) = Fin s" "0 \<le> s" "s \<le> c"
    by blast
  have "d07 \<le> 1" by (simp add: d07_def)
  then have "c + d07 < 2 powi 1023" using B eight_less_huge by linarith
  from py_add_le [OF s(2) s(3) x(1) x(2) this A] obtain s' where
    "py_add (Fin s) (Fin x) = Fin s'" "1 / 2 \<le> s'" "s' \<le> c'" by blast
  then show ?thesis using s(1) split by simp
qed

lemma prefix_0:
  "length ys = 0 \<Longrightarrow> \<forall>x\<in>set ys. 1 / 2 \<le> x \<and> x \<le> d07 \<Longrightarrow>
     \<exists>s. foldl py_add (Fin 0) (map Fin ys) = Fin s \<and> 0 \<le> s \<and> s \<le> 0"
  by simp

lemma prefix_1:
  assumes "length ys = Suc 0" and "\<forall>x\<in>set ys. 1 / 2 \<le> x \<and> x \<le> d07"
  shows "\<exists>s. foldl py_add (Fin 0) (map Fin ys) = Fin s \<and> 1 / 2 \<le> s \<and> s \<le> d07"
  using prefix_step [OF prefix_0 sum07_1 _ assms] by simp

lemma prefix_2:
  assumes "length ys = Suc (Suc 0)" and "\<forall>x\<in>set ys. 1 / 2 \<le> x \<and> x \<le> d07"
  shows "\<exists>s. foldl py_add (Fin 0) (map Fin ys) = Fin s \<and> 1 / 2 \<le> s \<and> s \<le> d14"
proof (rule prefix_step [OF _ sum07_2 _ assms])
  show "d07 \<le> 4" by (simp add: d07_def)
  fix ys assume "length ys = Suc 0" "\<forall>x\<in>set ys. 1 / 2 \<le> x \<and> x \<le> d07"
  from prefix_1 [OF this] show "\<exists>s. foldl py_add (Fin 0) (map Fin ys) = Fin s \<and> 0 \<le> s \<and> s \<le> d07"
    by force
qed

lemma prefix_3:
  assumes "length ys = Suc (Suc (Suc 0))" and "\<forall>x\<in>set ys. 1 / 2 \<le> x \<and> x \<le> d07"
  shows "\<exists>s. foldl py_add (Fin 0) (map Fin ys) = Fin s \<and> 1 / 2 \<le> s \<and> s \<le> d21"
proof (rule prefix_step [OF _ sum07_3 _ assms])
  show "d14 \<le> 4" by (simp add: d14_def)
  fix ys assume "length ys = Suc (Suc 0)" "\<forall>x\<in>set ys. 1 / 2 \<le> x \<and> x \<le> d07"
  from prefix_2 [OF this] show "\<exists>s. foldl py_add (Fin 0) (map Fin ys) = Fin s \<and> 0 \<le> s \<and> s \<le> d14"
    by force
qed

lemma prefix_4:
  assumes "length ys = Suc (Suc (Suc (Suc 0)))" and "\<forall>x\<in>set ys. 1 / 2 \<le> x \<and> x \<le> d07"
  shows "\<exists>s. foldl py_add (Fin 0) (map Fin ys) = Fin s \<and> 1 / 2 \<le> s \<and> s \<le> d28"
proof (rule prefix_step [OF _ sum07_4 _ assms])
  show "d21 \<le> 4" by (simp add: d21_def)
  fix ys assume "length ys = Suc (Suc (Suc 0))" "\<forall>x\<in>set ys. 1 / 2 \<le> x \<and> x \<le> d07"
  from prefix_3 [OF this] show "\<exists>s. foldl py_add (Fin 0) (map Fin ys) = Fin s \<and> 0 \<le> s \<and> s \<le> d21"
    by force
qed

lemma prefix_5:
  assumes "length ys = Suc (Suc (Suc (Suc (Suc 0))))" and "\<forall>x\<in>set ys. 1 / 2 \<le> x \<and> x \<le> d07"
  shows "\<exists>s. foldl py_add (Fin 0) (map Fin ys) = Fin s \<and> 1 / 2 \<le> s \<and> s \<le> d35"
proof (rule prefix_step [OF _ sum07_5 _ assms])
  show "d28 \<le> 4" by (simp add: d28_def)
  fix ys assume "length ys = Suc (Suc (Suc (Suc 0)))" "\<forall>x\<in>set ys. 1 / 2 \<le> x \<and> x \<le> d07"
  from prefix_4 [OF this] show "\<exists>s. foldl py_add (Fin 0) (map Fin ys) = Fin s \<and> 0 \<le> s \<and> s \<le> d28"
    by force
qed

lemma np_mean_short:
  "length xs < 8 \<Longrightarrow> np_mean xs = np_div (foldl py_add (Fin 0) xs) (Fin (of_nat (length xs)))"
  by (simp add: np_mean_def pairwise_sum.simps)

lemma mean_from_prefix:
  assumes s: "foldl py_add (Fin 0) (map Fin xs) = Fin s" "1 / 2 \<le> s" "s \<le> c"
    and len: "0 < length xs" "length xs < 8" and c: "c \<le> 8"
    and m: "np_div (Fin c) (Fin (of_nat (length xs))) = Fin m" and md: "m \<le> d07"
  shows "\<exists>m'. np_mean (map Fin xs) = Fin m' \<and> m' \<le> d07"
proof -
  have "length xs \<le> 8" using len by simp
  from np_div_le [OF s(2) s(3) len(1) this c m] obtain m' where
    "np_div (Fin s) (Fin (of_nat (length xs))) = Fin m'" "m' \<le> m" by blast
  then show ?thesis using s(1) len(2) md by (simp add: np_mean_short)
qed

lemma mean_le_07:
  assumes ne: "xs \<noteq> []" and len: "length xs \<le> 5" and xs: "\<forall>x\<in>set xs. 1 / 2 \<le> x \<and> x \<le> d07"
  shows "\<exists>m. np_mean (map Fin xs) = Fin m \<and> m \<le> d07"
proof -
  from ne len consider "length xs = Suc 0" | "length xs = Suc (Suc 0)"
    | "length xs = Suc (Suc (Suc 0))" | "length xs = Suc (Suc (Suc (Suc 0)))"
    | "length xs = Suc (Suc (Suc (Suc (Suc 0))))"
    by (cases xs) (auto simp: le_Suc_eq eval_nat_numeral)
  then show ?thesis
  proof cases
    case 1
    from prefix_1 [OF 1 xs] obtain s where s: "foldl py_add (Fin 0) (map Fin xs) = Fin s" "1 / 2 \<le> s" "s \<le> d07"
      by blast
    show ?thesis
      by (rule mean_from_prefix [OF s, of d07]) (simp_all add: 1 mean07_1, simp add: d07_def)
  next
    case 2
    from prefix_2 [OF 2 xs] obtain s where s: "foldl py_add (Fin 0) (map Fin xs) = Fin s" "1 / 2 \<le> s" "s \<le> d14"
      by blast
    have "np_div (Fin d14) (Fin (of_nat (length xs))) = Fin d07" using mean07_2 by (simp add: 2)
    then show ?thesis
      by (intro mean_from_prefix [OF s, of d07]) (simp_all add: 2 d14_def)
  next
    case 3
    from prefix_3 [OF 3 xs] obtain s where s: "foldl py_add (Fin 0) (map Fin xs) = Fin s" "1 / 2 \<le> s" "s \<le> d21"
      by blast
    have "np_div (Fin d21) (Fin (of_nat (length xs))) = Fin d07_below" using mean07_3 by (simp add: 3)
    then show ?thesis
      by (intro mean_from_prefix [OF s, of d07_below]) (simp_all add: 3 d21_def d07_below_def d07_def)
  next
    case 4
    from prefix_4 [OF 4 xs] obtain s where s: "foldl py_add (Fin 0) (map Fin xs) = Fin s" "1 / 2 \<le> s" "s \<le> d28"
      by blast
    have "np_div (Fin d28) (Fin (of_nat (length xs))) = Fin d07" using mean07_4 by (simp add: 4)
    then show ?thesis
      by (intro mean_from_prefix [OF s, of d07]) (simp_all add: 4 d28_def)
  next
    case 5
    from prefix_5 [OF 5 xs] obtain s where s: "foldl py_add (Fin 0) (map Fin xs) = Fin s" "1 / 2 \<le> s" "s \<le> d35"
      by blast
    have "np_div (Fin d35) (Fin (of_nat (length xs))) = Fin d07" using mean07_5 by (simp add: 5)
    then show ?thesis
      by (intro mean_from_prefix [OF s, of d07]) (simp_all add: 5 d35_def)
  qed
qed

declare py_round.simps [simp del]

section \<open>Properties of the scorer\<close>

lemma base_confidence_eq:
  "base_confidence v = (if fgt v (Fin 3) then Fin d03 else Fin (1 / 2))"
  by (simp add: base_confidence_def Let_def lit_05 lit_02 sub_05_02)

lemma boosted_eq:
  "py_add (base_confidence v) (py_lit (1 / 5)) = (if fgt v (Fin 3) then Fin (1 / 2) else Fin d07)"
  by (simp add: base_confidence_eq lit_02 add_03_02 add_05_02)

lemma capped_eq:
  "py_min (py_lit (9 / 10)) (py_add (base_confidence v) (py_lit (1 / 5))) =
     py_add (base_confidence v) (py_lit (1 / 5))"
  unfolding boosted_eq lit_09 by (simp add: py_min_def d09_def d07_def)

lemma round2_boosted:
  "py_round 2 (py_add (base_confidence v) (py_lit (1 / 5))) =
     py_add (base_confidence v) (py_lit (1 / 5))"
  unfolding boosted_eq by (simp add: round2_05 round2_07)

lemma action_eq:
  "action (generate_recommendation rs tr pc vol llm) =
     (if 2 \<le> recommendation_score rs tr pc then ''BUY''
      else if recommendation_score rs tr pc \<le> - 2 then ''SELL'' else ''WAIT'')"
  by (simp add: generate_recommendation_def Let_def)

lemma confidence_eq:
  "confidence (generate_recommendation rs tr pc vol llm) =
     (if 2 \<le> recommendation_score rs tr pc \<or> recommendation_score rs tr pc \<le> - 2
      then (if fgt vol (Fin 3) then Fin (1 / 2) else Fin d07)
      else Fin d06)"
  by (simp add: generate_recommendation_def Let_def capped_eq round2_boosted lit_06 round2_06)
     (simp add: boosted_eq)

text \<open>
  C3. The narrative string passed as \<^verbatim>\<open>llm_insights\<close> never influences the result: for
  all rsi, trend, price change and volatility, any two narratives (absent, empty or not) give
  the same recommendation, hence the same action, confidence and holding period.  The score
  does not take the narrative at all.
\<close>

theorem narrative_never_influences:
  "generate_recommendation rs tr pc vol n1 = generate_recommendation rs tr pc vol n2"
  by (simp add: generate_recommendation_def)

text \<open>
  C6. The decision ladder: score at least 2 gives BUY, score at most -2 gives SELL, anything
  else WAIT (so 2 is BUY, -2 is SELL, 1 and -1 are WAIT).  On BUY and SELL the returned
  confidence is \<^verbatim>\<open>min(0.9, confidence + 0.2)\<close> of the confidence left by the volatility
  rule; on WAIT it is 0.6, whatever the volatility.
\<close>

theorem decision_ladder:
  "action (generate_recommendation rs tr pc vol llm) =
     (if 2 \<le> recommendation_score rs tr pc then ''BUY''
      else if recommendation_score rs tr pc \<le> - 2 then ''SELL'' else ''WAIT'')
   \<and> confidence (generate_recommendation rs tr pc vol llm) =
     (if 2 \<le> recommendation_score rs tr pc \<or> recommendation_score rs tr pc \<le> - 2
      then py_min (py_lit (9 / 10)) (py_add (base_confidence vol) (py_lit (2 / 10)))
      else py_lit (6 / 10))"
proof -
  have "py_min (py_lit (9 / 10)) (py_add (base_confidence vol) (py_lit (2 / 10))) =
          (if fgt vol (Fin 3) then Fin (1 / 2) else Fin d07)"
    using capped_eq [of vol] boosted_eq [of vol] by simp
  then show ?thesis
    by (simp add: action_eq confidence_eq lit_06)
qed

text \<open>
  C7. The score is monotone in the trend: with rsi and price change fixed, the score for a
  bullish trend is at least the score for a bearish trend.
\<close>

theorem score_monotone_in_trend:
  "recommendation_score rs ''bearish'' pc \<le> recommendation_score rs ''bullish'' pc"
  by (simp add: recommendation_score_def Let_def)

text \<open>
  C8. With rsi above 70, a bullish trend and a 30-day price change above 5, the score is
  -2 (overbought -2, trend +1, price change -1) and the action is SELL.
\<close>

theorem overbought_dominates_bullish:
  assumes "fgt rs (Fin 70)" and "fgt pc (Fin 5)"
  shows "recommendation_score rs ''bullish'' pc = - 2
       \<and> action (generate_recommendation rs ''bullish'' pc vol llm) = ''SELL''"
proof -
  have "\<not> flt rs (Fin 30)"
    using assms(1) by (cases rs) (simp_all add: fgt_def)
  then have s: "recommendation_score rs ''bullish'' pc = - 2"
    using assms by (simp add: recommendation_score_def Let_def)
  then show ?thesis by (simp add: action_eq)
qed

theorem overbought_dominates_bullish_witness:
  "fgt (Fin 80) (Fin 70) \<and> fgt (Fin 10) (Fin 5)
   \<and> recommendation_score (Fin 80) ''bullish'' (Fin 10) = - 2
   \<and> action (generate_recommendation (Fin 80) ''bullish'' (Fin 10) (Fin 1) None) = ''SELL''"
proof -
  have a: "fgt (Fin 80) (Fin 70)" and b: "fgt (Fin 10) (Fin 5)"
    by (simp_all add: fgt_def)
  show ?thesis
    using a b overbought_dominates_bullish [OF a b, of "Fin 1" None] by simp
qed

text \<open>
  C9. The returned confidence is always one of 0.5, 0.6 and 0.7 (as binary64 numbers): never
  below 0.5, never above 0.7, and the cap of 0.9 in \<^verbatim>\<open>min(0.9, confidence + 0.2)\<close> never
  binds.  Each of the three values is returned for some input.
\<close>

theorem confidence_is_05_06_07:
  "confidence (generate_recommendation rs tr pc vol llm)
      \<in> {py_lit (5 / 10), py_lit (6 / 10), py_lit (7 / 10)}
   \<and> fle (py_lit (5 / 10)) (confidence (generate_recommendation rs tr pc vol llm))
   \<and> fle (confidence (generate_recommendation rs tr pc vol llm)) (py_lit (7 / 10))
   \<and> py_min (py_lit (9 / 10)) (py_add (base_confidence vol) (py_lit (2 / 10))) =
       py_add (base_confidence vol) (py_lit (2 / 10))
   \<and> confidence (generate_recommendation (Fin 25) ''bullish'' (Fin 0) (Fin 5) None) = py_lit (5 / 10)
   \<and> confidence (generate_recommendation (Fin 60) ''neutral'' (Fin 0) (Fin 5) None) = py_lit (6 / 10)
   \<and> confidence (generate_recommendation (Fin 25) ''bullish'' (Fin 0) (Fin 1) None) = py_lit (7 / 10)"
proof -
  have "recommendation_score (Fin 25) ''bullish'' (Fin 0) = 3"
    and "recommendation_score (Fin 60) ''neutral'' (Fin 0) = 0"
    by (simp_all add: recommendation_score_def Let_def fgt_def fle_def)
  then show ?thesis
    by (simp add: confidence_eq capped_eq lit_05 lit_06 lit_07 fle_def fgt_def d06_def d07_def)
qed

section \<open>Properties of the portfolio aggregator\<close>

lemma scorer_confidence_range:
  "\<exists>x. confidence (generate_recommendation rs tr pc vol llm) = Fin x \<and> 1 / 2 \<le> x \<and> x \<le> d07"
proof -
  have "(1 / 2 :: real) \<le> d07" "1 / 2 \<le> d06" "d06 \<le> d07"
    by (simp_all add: d06_def d07_def)
  note b = this
  let ?c = "confidence (generate_recommendation rs tr pc vol llm)"
  have "?c = Fin (1 / 2) \<or> ?c = Fin d07 \<or> ?c = Fin d06"
    by (simp add: confidence_eq)
  then show ?thesis
  proof (elim disjE)
    assume "?c = Fin (1 / 2)"
    then show ?thesis using b by (intro exI [of _ "1 / 2"]) simp
  next
    assume "?c = Fin d07"
    then show ?thesis using b by (intro exI [of _ d07]) simp
  next
    assume "?c = Fin d06"
    then show ?thesis using b by (intro exI [of _ d06]) simp
  qed
qed

lemma map_Fin_ex:
  "\<forall>p\<in>set ps. \<exists>x. p = Fin x \<and> 1 / 2 \<le> x \<and> x \<le> d07 \<Longrightarrow>
     \<exists>xs. ps = map Fin xs \<and> (\<forall>x\<in>set xs. 1 / 2 \<le> x \<and> x \<le> d07)"
proof (induction ps)
  case Nil
  then show ?case by simp
next
  case (Cons p ps)
  then obtain x where x: "p = Fin x" "1 / 2 \<le> x" "x \<le> d07" by auto
  from Cons obtain xs where xs: "ps = map Fin xs" "\<forall>x\<in>set xs. 1 / 2 \<le> x \<and> x \<le> d07" by auto
  show ?case
    by (rule exI [of _ "x # xs"]) (use x xs in simp)
qed

lemma not_aggressive:
  "\<not> fgt (avg_confidence analyses) (py_lit (7 / 10)) \<Longrightarrow>
     p_action (get_portfolio_recommendation analyses) \<noteq> ''AGGRESSIVE_BUY''"
  by (simp add: get_portfolio_recommendation_def)

text \<open>
  In exact arithmetic the mean of confidences that are each at most 0.7 is at most 0.7.
\<close>

lemma exact_mean_at_most_07:
  assumes "xs \<noteq> []" and "\<forall>x\<in>set xs. x \<le> d07"
  shows "sum_list xs / of_nat (length xs) \<le> d07"
proof -
  have "sum_list xs \<le> of_nat (length xs) * d07"
    using assms(2) by (induction xs) (simp_all add: algebra_simps)
  moreover have "(0::real) < of_nat (length xs)" using assms(1) by simp
  ultimately show ?thesis by (simp add: field_simps)
qed

text \<open>
  The binary64 mean keeps that bound for up to five analyses: rounding is monotone and the
  mean of up to five copies of 0.7 does not exceed 0.7.
\<close>

lemma no_aggressive_buy_up_to_five:
  assumes ne: "analyses \<noteq> []" and len: "length analyses \<le> 5"
    and sc: "\<forall>a\<in>set (map snd analyses). \<exists>rs tr pc vol llm.
               a_confidence a = Some (confidence (generate_recommendation rs tr pc vol llm))"
  shows "fle (avg_confidence analyses) (py_lit (7 / 10))
       \<and> \<not> fgt (avg_confidence analyses) (py_lit (7 / 10))
       \<and> p_action (get_portfolio_recommendation analyses) \<noteq> ''AGGRESSIVE_BUY''"
proof -
  let ?ps = "map (\<lambda>a. case a_confidence a of Some c \<Rightarrow> c | None \<Rightarrow> py_lit (5 / 10)) (map snd analyses)"
  have "\<forall>p\<in>set ?ps. \<exists>x. p = Fin x \<and> 1 / 2 \<le> x \<and> x \<le> d07"
  proof
    fix p assume "p \<in> set ?ps"
    then obtain a where a: "a \<in> set (map snd analyses)"
      and p: "p = (case a_confidence a of Some c \<Rightarrow> c | None \<Rightarrow> py_lit (5 / 10))"
      by auto
    from sc a obtain rs tr pc vol llm where
      "a_confidence a = Some (confidence (generate_recommendation rs tr pc vol llm))"
      by blast
    then show "\<exists>x. p = Fin x \<and> 1 / 2 \<le> x \<and> x \<le> d07"
      using p scorer_confidence_range [of rs tr pc vol llm] by simp
  qed
  from map_Fin_ex [OF this] obtain xs where
    xs: "?ps = map Fin xs" "\<forall>x\<in>set xs. 1 / 2 \<le> x \<and> x \<le> d07" by blast
  have "length xs = length analyses" using arg_cong [OF xs(1), of length] by simp
  then have "xs \<noteq> []" "length xs \<le> 5" using ne len by auto
  from mean_le_07 [OF this xs(2)] obtain m where m: "np_mean (map Fin xs) = Fin m" "m \<le> d07"
    by blast
  have avg: "avg_confidence analyses = Fin m"
    unfolding avg_confidence_def xs(1) by (rule m(1))
  have nf: "\<not> fgt (avg_confidence analyses) (py_lit (7 / 10))"
    using m(2) by (simp add: avg lit_07 fgt_def)
  moreover have "fle (avg_confidence analyses) (py_lit (7 / 10))"
    using m(2) by (auto simp add: avg lit_07 fle_def)
  ultimately show ?thesis using not_aggressive by blast
qed

lemma six_buys_conf:
  "confidence (generate_recommendation (Fin 25) ''bullish'' (Fin 0) (Fin 1) None) = Fin d07"
  by (simp add: confidence_eq recommendation_score_def Let_def fgt_def)

lemma six_buys_action:
  "action (generate_recommendation (Fin 25) ''bullish'' (Fin 0) (Fin 1) None) = ''BUY''"
  by (simp add: action_eq recommendation_score_def Let_def fgt_def)

lemma six_buys_avg: "avg_confidence six_buys = Fin d07_above"
  by (simp add: avg_confidence_def six_buys_def analysis_of_def six_buys_conf np_mean_short
      sum07_1 sum07_2 sum07_3 sum07_4 sum07_5 sum07_6 mean07_6)

lemma six_buys_ratio: "buy_ratio six_buys = Fin 1"
proof -
  have "rnd64 1 = Fin 1"
    by (subst rnd64_normal [of 0]) (simp_all add: round_half_even_def Let_def)
  then show ?thesis
    by (simp add: buy_ratio_def six_buys_def analysis_of_def six_buys_action
        count_recommendation_def py_int_div_def)
qed

text \<open>
  C10. The claim is that AGGRESSIVE_BUY cannot be reached from scorer output, because each
  confidence is at most 0.7 and so is their average.  The code breaks it by rounding: for six
  tickers, each a BUY with confidence 0.7 from the scorer, the exact mean is 0.7, but
  \<^verbatim>\<open>np.mean\<close> adds in binary64 (the sum is 4.2) and 4.2 / 6 rounds to 0.7000000000000001.
  That is above 0.7, the buy ratio is 1, and the portfolio action is AGGRESSIVE_BUY.
\<close>

theorem six_buys_aggressive:
  "map snd six_buys =
     replicate 6 (analysis_of (generate_recommendation (Fin 25) ''bullish'' (Fin 0) (Fin 1) None))
   \<and> action (generate_recommendation (Fin 25) ''bullish'' (Fin 0) (Fin 1) None) = ''BUY''
   \<and> confidence (generate_recommendation (Fin 25) ''bullish'' (Fin 0) (Fin 1) None) = py_lit (7 / 10)
   \<and> py_lit (7 / 10) = Fin d07
   \<and> sum_list (replicate 6 d07) / 6 = d07
   \<and> avg_confidence six_buys = Fin d07_above
   \<and> d07 < d07_above
   \<and> buy_ratio six_buys = Fin 1
   \<and> fgt (avg_confidence six_buys) (py_lit (7 / 10))
   \<and> p_action (get_portfolio_recommendation six_buys) = ''AGGRESSIVE_BUY''"
proof -
  have "map snd six_buys =
     replicate 6 (analysis_of (generate_recommendation (Fin 25) ''bullish'' (Fin 0) (Fin 1) None))"
    by (simp add: six_buys_def eval_nat_numeral)
  moreover have "sum_list (replicate 6 d07) / 6 = d07"
    by (simp add: sum_list_replicate)
  moreover have "d07 < d07_above" by (simp add: d07_def d07_above_def)
  moreover have "fgt (avg_confidence six_buys) (py_lit (7 / 10))
      \<and> p_action (get_portfolio_recommendation six_buys) = ''AGGRESSIVE_BUY''"
    by (simp add: get_portfolio_recommendation_def six_buys_avg six_buys_ratio lit_06 lit_07
        fgt_def d06_def d07_def d07_above_def)
  ultimately show ?thesis
    using six_buys_action six_buys_conf six_buys_avg six_buys_ratio lit_07 by simp
qed

section \<open>Properties of the indicator engine\<close>

lemma length_rolling_mean [simp]: "length (rolling_mean w xs) = length xs"
  by (simp add: rolling_mean_def)

lemma length_rolling_std [simp]: "length (rolling_std w xs) = length xs"
  by (simp add: rolling_std_def)

lemma nth_rolling_mean:
  "i < length xs \<Longrightarrow> rolling_mean w xs ! i = window_mean (window w xs i)"
  by (simp add: rolling_mean_def)

lemma nth_rolling_std:
  "i < length xs \<Longrightarrow> rolling_std w xs ! i = window_std (window w xs i)"
  by (simp add: rolling_std_def)

lemma window_partial: "i < w \<Longrightarrow> window w xs i = take (Suc i) xs"
  by (simp add: window_def)

lemma length_indicators_of_sorted [simp]: "length (indicators_of_sorted df) = length df"
  by (simp add: indicators_of_sorted_def Let_def)

subsection \<open>Sorters\<close>

lemma is_argsort_argsort: "is_argsort (argsort srt)"
  using argsort [of srt] by simp

lemma mset_argsort: "mset (argsort srt keys) = mset [0..<length keys]"
  using is_argsort_argsort [of srt] by (simp add: is_argsort_def)

lemma sorted_argsort: "sorted (map ((!) keys) (argsort srt keys))"
  using is_argsort_argsort [of srt] by (simp add: is_argsort_def)

lemma set_argsort: "set (argsort srt keys) = {0..<length keys}"
  using arg_cong [OF mset_argsort [of srt keys], of set_mset] by simp

lemma length_argsort [simp]: "length (argsort srt keys) = length keys"
  using arg_cong [OF mset_argsort [of srt keys], of size] by simp

lemma is_argsort_stable: "is_argsort stable_argsort"
  by (simp add: is_argsort_def stable_argsort_def)

lemma is_argsort_reversing: "is_argsort reversing_argsort"
  by (simp add: is_argsort_def reversing_argsort_def)

lemma argsort_stable_sorter: "argsort stable_sorter = stable_argsort"
  unfolding stable_sorter_def using is_argsort_stable by (simp add: Abs_sorter_inverse)

lemma argsort_reversing_sorter: "argsort reversing_sorter = reversing_argsort"
  unfolding reversing_sorter_def using is_argsort_reversing by (simp add: Abs_sorter_inverse)

lemma length_sort_values [simp]: "length (sort_values srt df) = length df"
  by (simp add: sort_values_def)

lemma nth_sort_values:
  "i < length df \<Longrightarrow> sort_values srt df ! i = df ! (argsort srt (map timestamp df) ! i)"
  by (simp add: sort_values_def)

lemma mset_sort_values [simp]: "mset (sort_values srt df) = mset df"
proof -
  have "mset (sort_values srt df) = image_mset ((!) df) (mset (argsort srt (map timestamp df)))"
    by (simp add: sort_values_def)
  also have "\<dots> = image_mset ((!) df) (mset [0..<length df])"
    by (simp add: mset_argsort)
  also have "\<dots> = mset (map ((!) df) [0..<length df])" by simp
  also have "\<dots> = mset df" by (simp only: map_nth)
  finally show ?thesis .
qed

lemma set_sort_values [simp]: "set (sort_values srt df) = set df"
  by (rule mset_eq_setD) (rule mset_sort_values)

lemma sorted_sort_values: "sorted (map timestamp (sort_values srt df))"
proof -
  have "map timestamp (sort_values srt df) =
          map ((!) (map timestamp df)) (argsort srt (map timestamp df))"
    using set_argsort [of srt "map timestamp df"] by (auto simp add: sort_values_def)
  then show ?thesis by (simp add: sorted_argsort)
qed

lemma sort_values_Nil_iff [simp]: "sort_values srt df = [] \<longleftrightarrow> df = []"
  using length_sort_values [of srt df] by (metis length_0_conv)

lemma length_calculate [simp]: "length (calculate_technical_indicators srt df) = length df"
  by (simp add: calculate_technical_indicators_def)

lemma calculate_nth:
  "i < length df \<Longrightarrow>
     calculate_technical_indicators srt df ! i = indicators_of_sorted (sort_values srt df) ! i"
  by (auto simp add: calculate_technical_indicators_def)

lemma filter_key_distinct:
  "distinct (map f xs) \<Longrightarrow> k \<in> set xs \<Longrightarrow> filter (\<lambda>x. f k = f x) xs = [k]"
proof (induction xs)
  case Nil
  then show ?case by simp
next
  case (Cons x xs)
  show ?case
  proof (cases "k = x")
    case True
    have "filter (\<lambda>y. f x = f y) xs = []"
      using Cons.prems(1) by (auto simp add: filter_empty_conv)
    then show ?thesis using True by simp
  next
    case False
    then have "k \<in> set xs" using Cons.prems(2) by simp
    moreover have "f k \<noteq> f x"
    proof
      assume "f k = f x"
      then have "f x \<in> f ` set xs" using \<open>k \<in> set xs\<close> by (metis imageI)
      then show False using Cons.prems(1) by simp
    qed
    ultimately show ?thesis using Cons by simp
  qed
qed

lemma sorted_permutation_unique:
  assumes d: "distinct (map f xs)" and m: "mset ys = mset xs" and s: "sorted (map f ys)"
  shows "sort_key f xs = ys"
proof (rule properties_for_sort_key [OF m _ s])
  fix k assume k: "k \<in> set ys"
  have "mset (map f ys) = mset (map f xs)" using m by simp
  then have dy: "distinct (map f ys)" using d by (metis mset_eq_imp_distinct_iff)
  have kx: "k \<in> set xs" using k m by (metis set_mset_mset)
  show "filter (\<lambda>x. f k = f x) ys = filter (\<lambda>x. f k = f x) xs"
    using filter_key_distinct [OF dy k] filter_key_distinct [OF d kx] by simp
qed

text \<open>
  Where the timestamps are pairwise distinct there is one sorted frame, and every sorter
  returns it.
\<close>

lemma sort_values_distinct:
  "distinct (map timestamp df) \<Longrightarrow> sort_values srt df = sort_key timestamp df"
  using sorted_permutation_unique [of timestamp df "sort_values srt df"]
  by (simp add: sorted_sort_values)

lemma sort_values_three_bars:
  "sort_values srt three_bars = [three_bars ! 1, three_bars ! 2, three_bars ! 0]"
  by (subst sort_values_distinct) (simp_all add: three_bars_def)

subsection \<open>Rows of the output\<close>

lemma sorted_row_bar:
  assumes "i < length df"
  shows "bar.truncate (indicators_of_sorted df ! i) = df ! i"
  using assms by (simp add: indicators_of_sorted_def Let_def bar.truncate_def)

lemma sorted_row_means:
  assumes "i < length df"
  shows "sma_20 (indicators_of_sorted df ! i) = window_mean (window 20 (map close df) i)"
    and "sma_50 (indicators_of_sorted df ! i) = window_mean (window 50 (map close df) i)"
    and "bb_middle (indicators_of_sorted df ! i) = window_mean (window 20 (map close df) i)"
    and "volume_sma (indicators_of_sorted df ! i) = window_mean (window 20 (map volume df) i)"
  using assms by (simp_all add: indicators_of_sorted_def Let_def nth_rolling_mean)

lemma sorted_row_bands:
  assumes "i < length df"
  shows "bb_upper (indicators_of_sorted df ! i) =
           fadd (window_mean (window 20 (map close df) i))
                (fmul (window_std (window 20 (map close df) i)) (Fin 2))"
    and "bb_lower (indicators_of_sorted df ! i) =
           fsub (window_mean (window 20 (map close df) i))
                (fmul (window_std (window 20 (map close df) i)) (Fin 2))"
  using assms
  by (simp_all add: indicators_of_sorted_def Let_def bb_upper_column_def bb_lower_column_def
      nth_rolling_mean nth_rolling_std)

lemma sorted_row_rsi_bands:
  assumes "i < length df"
  shows "rsi (indicators_of_sorted df ! i) = rsi_column (map close df) ! i"
    and "bb_upper (indicators_of_sorted df ! i) = bb_upper_column (map close df) ! i"
    and "bb_lower (indicators_of_sorted df ! i) = bb_lower_column (map close df) ! i"
    and "trend (indicators_of_sorted df ! i) =
           trend_of (close (df ! i)) (rolling_mean 20 (map close df) ! i)"
  using assms by (simp_all add: indicators_of_sorted_def Let_def)

lemma sorted_row_changes:
  assumes "i < length df"
  shows "price_change (indicators_of_sorted df ! i) = pct_change (map close df) ! i"
    and "volatility (indicators_of_sorted df ! i) = rolling_std 20 (pct_change (map close df)) ! i"
  using assms by (simp_all add: indicators_of_sorted_def Let_def)

lemma length_diff [simp]: "length (diff xs) = length xs"
  by (cases xs) (simp_all add: diff_def)

lemma length_rsi_gain [simp]: "length (rsi_gain xs) = length xs"
  by (simp add: rsi_gain_def)

lemma length_rsi_loss [simp]: "length (rsi_loss xs) = length xs"
  by (simp add: rsi_loss_def)

lemma nth_rsi_column:
  "j < length xs \<Longrightarrow> rsi_column xs ! j = rsi_of (rsi_gain xs ! j) (rsi_loss xs ! j)"
  by (simp add: rsi_column_def)

lemma rsi_of_zero_loss:
  "rsi_of (Fin g) (Fin 0) = (if 0 < g then Fin 100 else if g = 0 then NaN else Fin 100)"
  by (simp add: rsi_of_def inf_of_sign_def fsub_def)

subsection \<open>The first row\<close>

lemma window_first: "0 < w \<Longrightarrow> xs \<noteq> [] \<Longrightarrow> window w xs 0 = [xs ! 0]"
  by (cases xs) (simp_all add: window_def)

lemma window_mean_single: "window_mean [Fin r] = Fin r"
  by (simp add: window_mean_def observations_def map_filter_def mean_def)

lemma window_std_single: "window_std [x] = NaN"
  by (cases x) (simp_all add: window_std_def observations_def map_filter_def Let_def)

lemma fadd_NaN_right [simp]: "fadd a NaN = NaN"
  by (cases a) simp_all

lemma length_ffill [simp]: "length (ffill prev xs) = length xs"
  by (induction prev xs rule: ffill.induct) simp_all

lemma length_pct_change [simp]: "length (pct_change xs) = length xs"
  by (cases "ffill NaN xs") (use length_ffill [of NaN xs] in \<open>simp_all add: pct_change_def\<close>)

lemma pct_change_first: "xs \<noteq> [] \<Longrightarrow> pct_change xs ! 0 = NaN"
  by (cases "ffill NaN xs") (use length_ffill [of NaN xs] in \<open>simp_all add: pct_change_def\<close>)

lemma diff_first: "xs \<noteq> [] \<Longrightarrow> diff xs ! 0 = NaN"
  by (cases xs) (simp_all add: diff_def)

lemma rsi_column_first:
  assumes "xs \<noteq> []"
  shows "rsi_column xs ! 0 = NaN"
proof -
  have d: "diff xs \<noteq> []" using assms length_diff [of xs] by (metis length_0_conv)
  have g: "rsi_gain xs ! 0 = Fin 0"
    using assms d by (simp add: rsi_gain_def nth_rolling_mean window_first diff_first fgt_def
        window_mean_single)
  have l: "rsi_loss xs ! 0 = Fin 0"
    using assms d by (simp add: rsi_loss_def nth_rolling_mean window_first diff_first
        window_mean_single)
  show ?thesis using assms by (simp add: nth_rsi_column g l rsi_of_zero_loss)
qed

lemma first_row:
  assumes "df \<noteq> []"
  shows "bb_upper (indicators_of_sorted df ! 0) = NaN"
    and "bb_lower (indicators_of_sorted df ! 0) = NaN"
    and "rsi (indicators_of_sorted df ! 0) = NaN"
    and "price_change (indicators_of_sorted df ! 0) = NaN"
    and "volatility (indicators_of_sorted df ! 0) = NaN"
    and "close (df ! 0) = Fin r \<Longrightarrow> sma_20 (indicators_of_sorted df ! 0) = Fin r"
    and "close (df ! 0) = Fin r \<Longrightarrow> sma_50 (indicators_of_sorted df ! 0) = Fin r"
    and "close (df ! 0) = Fin r \<Longrightarrow> bb_middle (indicators_of_sorted df ! 0) = Fin r"
    and "close (df ! 0) = Fin r \<Longrightarrow> trend (indicators_of_sorted df ! 0) = ''neutral''"
proof -
  have l: "0 < length df" and c: "map close df \<noteq> []" using assms by simp_all
  have p: "pct_change (map close df) \<noteq> []"
    using c length_pct_change [of "map close df"] by (metis length_0_conv)
  show "bb_upper (indicators_of_sorted df ! 0) = NaN"
    and "bb_lower (indicators_of_sorted df ! 0) = NaN"
    unfolding sorted_row_bands [OF l] using c
    by (simp_all add: window_first window_std_single fsub_def)
  show "rsi (indicators_of_sorted df ! 0) = NaN"
    unfolding sorted_row_rsi_bands(1) [OF l] using c by (rule rsi_column_first)
  show "price_change (indicators_of_sorted df ! 0) = NaN"
    unfolding sorted_row_changes(1) [OF l] using c by (rule pct_change_first)
  show "volatility (indicators_of_sorted df ! 0) = NaN"
    unfolding sorted_row_changes(2) [OF l] using p l
    by (simp add: nth_rolling_std window_first window_std_single)
  assume r: "close (df ! 0) = Fin r"
  show "sma_20 (indicators_of_sorted df ! 0) = Fin r"
    and "sma_50 (indicators_of_sorted df ! 0) = Fin r"
    and "bb_middle (indicators_of_sorted df ! 0) = Fin r"
    unfolding sorted_row_means [OF l] using c l r
    by (simp_all add: window_first window_mean_single)
  show "trend (indicators_of_sorted df ! 0) = ''neutral''"
    unfolding sorted_row_rsi_bands(4) [OF l] using c l r
    by (simp add: nth_rolling_mean window_first window_mean_single trend_of_def fgt_def)
qed




subsection \<open>Input order\<close>

lemma closes_of_output:
  "map close (calculate_technical_indicators srt df) = map close (sort_values srt df)"
proof (cases "df = []")
  case True
  then show ?thesis by (simp add: calculate_technical_indicators_def)
next
  case False
  have "map close (indicators_of_sorted xs) = map close xs" for xs
    by (rule nth_equalityI) (simp_all add: indicators_of_sorted_def Let_def)
  then show ?thesis using False by (simp add: calculate_technical_indicators_def)
qed

lemma sort_values_permutation:
  assumes d: "distinct (map timestamp xs)" and m: "mset ys = mset xs"
  shows "sort_values srt ys = sort_key timestamp xs"
proof -
  have "mset (sort_values srt ys) = mset xs" using m by simp
  then show ?thesis
    using sorted_permutation_unique [OF d _ sorted_sort_values [of srt ys]] by simp
qed

lemma calculate_permutation:
  assumes d: "distinct (map timestamp xs)" and m: "mset ys = mset xs"
  shows "calculate_technical_indicators srt ys =
           (if xs = [] then [] else indicators_of_sorted (sort_key timestamp xs))"
proof -
  have "ys = [] \<longleftrightarrow> xs = []" using m by (metis mset_zero_iff)
  then show ?thesis
    by (simp add: calculate_technical_indicators_def sort_values_permutation [OF d m])
qed

text \<open>
  Two rows that share a timestamp and differ: exchanging them leaves the key column as it
  was, so the sorter returns the same order of row numbers and the two rows change places
  in the sorted frame.
\<close>

lemma swap_changes_output:
  assumes i: "i < length xs" and j: "j < length xs"
    and t: "timestamp (xs ! i) = timestamp (xs ! j)" and ne: "xs ! i \<noteq> xs ! j"
  shows "calculate_technical_indicators srt (xs[i := xs ! j, j := xs ! i])
           \<noteq> calculate_technical_indicators srt xs"
proof
  let ?ys = "xs[i := xs ! j, j := xs ! i]"
  let ?idx = "argsort srt (map timestamp xs)"
  assume e: "calculate_technical_indicators srt ?ys = calculate_technical_indicators srt xs"
  have ij: "i \<noteq> j" using ne by auto
  have keys: "map timestamp ?ys = map timestamp xs"
    using i j t by (intro nth_equalityI) (auto simp add: nth_list_update)
  have "i \<in> set ?idx" using i by (simp add: set_argsort)
  then obtain k where k: "k < length xs" and ki: "?idx ! k = i"
    by (auto simp add: in_set_conv_nth)
  have ky: "k < length ?ys" using k by simp
  have a: "sort_values srt ?ys ! k = xs ! j"
    using i j ij by (simp add: nth_sort_values [OF ky] keys ki)
  have b: "sort_values srt xs ! k = xs ! i"
    by (simp add: nth_sort_values [OF k] ki)
  have "indicators_of_sorted (sort_values srt ?ys) ! k = indicators_of_sorted (sort_values srt xs) ! k"
    using e calculate_nth [OF ky, of srt] calculate_nth [OF k, of srt] by simp
  then have "bar.truncate (indicators_of_sorted (sort_values srt ?ys) ! k) =
             bar.truncate (indicators_of_sorted (sort_values srt xs) ! k)"
    by simp
  then have "sort_values srt ?ys ! k = sort_values srt xs ! k"
    using k by (simp add: sorted_row_bar)
  then show False using a b ne by simp
qed

lemma swap_tie_series: "tie_series[0 := tie_series ! 1, 1 := tie_series ! 0] = rev tie_series"
  by (simp add: tie_series_def)

lemma sort_values_tie_series:
  "sort_values stable_sorter tie_series = tie_series"
  "sort_values stable_sorter (rev tie_series) = rev tie_series"
  "sort_values reversing_sorter tie_series = rev tie_series"
  "sort_values reversing_sorter (rev tie_series) = tie_series"
  by (simp_all add: sort_values_def argsort_stable_sorter argsort_reversing_sorter
      stable_argsort_def reversing_argsort_def tie_series_def upt_rec)

text \<open>
  C5 as stated fails when two rows share a timestamp.  The series of two rows closing at 10
  and at 20, both at timestamp 1, is sorted, and so is the permutation that exchanges its
  rows; the engine returns the two permutations with their closes in opposite orders,
  under the stable sorter, under the reversing sorter and under every other sorter.  So the
  output of a permutation is not always the output on the sorted series.  Under the
  reversing sorter the output on the series sorted beforehand is not the output on the
  series either.
\<close>

theorem tie_breaks_order_invariance:
  "mset (rev tie_series) = mset tie_series
   \<and> sorted (map timestamp tie_series) \<and> sorted (map timestamp (rev tie_series))
   \<and> map close (calculate_technical_indicators stable_sorter tie_series) = [Fin 10, Fin 20]
   \<and> map close (calculate_technical_indicators stable_sorter (rev tie_series)) = [Fin 20, Fin 10]
   \<and> map close (calculate_technical_indicators reversing_sorter tie_series) = [Fin 20, Fin 10]
   \<and> map close (calculate_technical_indicators reversing_sorter (rev tie_series)) = [Fin 10, Fin 20]
   \<and> map close (calculate_technical_indicators reversing_sorter
                   (sort_values reversing_sorter tie_series)) = [Fin 10, Fin 20]
   \<and> calculate_technical_indicators stable_sorter (rev tie_series)
       \<noteq> calculate_technical_indicators stable_sorter tie_series
   \<and> calculate_technical_indicators reversing_sorter (rev tie_series)
       \<noteq> calculate_technical_indicators reversing_sorter tie_series
   \<and> (\<forall>srt. calculate_technical_indicators srt (rev tie_series)
               \<noteq> calculate_technical_indicators srt tie_series)"
proof -
  have g: "calculate_technical_indicators srt (rev tie_series)
             \<noteq> calculate_technical_indicators srt tie_series" for srt
    using swap_changes_output [of 0 tie_series 1 srt] unfolding swap_tie_series
    by (simp add: tie_series_def)
  have "mset (rev tie_series) = mset tie_series"
    and "sorted (map timestamp tie_series)" and "sorted (map timestamp (rev tie_series))"
    by (simp_all add: tie_series_def)
  moreover have "map close (calculate_technical_indicators stable_sorter tie_series) = [Fin 10, Fin 20]"
    and "map close (calculate_technical_indicators stable_sorter (rev tie_series)) = [Fin 20, Fin 10]"
    and "map close (calculate_technical_indicators reversing_sorter tie_series) = [Fin 20, Fin 10]"
    and "map close (calculate_technical_indicators reversing_sorter (rev tie_series)) = [Fin 10, Fin 20]"
    and "map close (calculate_technical_indicators reversing_sorter
                      (sort_values reversing_sorter tie_series)) = [Fin 10, Fin 20]"
    unfolding closes_of_output sort_values_tie_series by (simp_all add: tie_series_def)
  ultimately show ?thesis using g by blast
qed

text \<open>
  C5 (amended). For a series whose timestamps are pairwise distinct the output does not depend
  on the order of the input: every permutation of the rows gives the output on the sorted
  series, under every sorter, because the engine sorts by timestamp itself.  The sort is not
  a stable one, and where two different rows share a timestamp the output does depend on
  the input order: exchanging the two rows changes it.
\<close>

theorem order_invariance_distinct_timestamps:
  "(distinct (map timestamp xs) \<and> mset ys = mset xs \<longrightarrow>
        calculate_technical_indicators srt ys =
          calculate_technical_indicators srt (sort_values srt xs)
      \<and> calculate_technical_indicators srt ys = calculate_technical_indicators srt xs
      \<and> calculate_technical_indicators srt ys = calculate_technical_indicators srt' xs
      \<and> (sorted (map timestamp ys) \<longrightarrow>
            indicators_of_sorted ys = calculate_technical_indicators srt xs))
   \<and> (i < length xs \<and> j < length xs \<and> timestamp (xs ! i) = timestamp (xs ! j)
        \<and> xs ! i \<noteq> xs ! j \<longrightarrow>
        mset (xs[i := xs ! j, j := xs ! i]) = mset xs
      \<and> calculate_technical_indicators srt (xs[i := xs ! j, j := xs ! i])
          \<noteq> calculate_technical_indicators srt xs)"
proof (intro conjI impI)
  {
    assume a: "distinct (map timestamp xs) \<and> mset ys = mset xs"
    then have d: "distinct (map timestamp xs)" and m: "mset ys = mset xs" by simp_all
    note y = calculate_permutation [OF d m]
    have x: "calculate_technical_indicators s xs =
               (if xs = [] then [] else indicators_of_sorted (sort_key timestamp xs))" for s
      by (rule calculate_permutation [OF d]) simp
    have z: "calculate_technical_indicators srt (sort_values srt xs) =
               (if xs = [] then [] else indicators_of_sorted (sort_key timestamp xs))"
      by (rule calculate_permutation [OF d]) simp
    show "calculate_technical_indicators srt ys =
            calculate_technical_indicators srt (sort_values srt xs)"
      and "calculate_technical_indicators srt ys = calculate_technical_indicators srt xs"
      and "calculate_technical_indicators srt ys = calculate_technical_indicators srt' xs"
      by (simp_all only: x y z)
    {
      assume s: "sorted (map timestamp ys)"
      have "sort_key timestamp xs = ys" using d m s by (rule sorted_permutation_unique)
      moreover have "ys = [] \<longleftrightarrow> xs = []" using m by (metis mset_zero_iff)
      ultimately show "indicators_of_sorted ys = calculate_technical_indicators srt xs"
        unfolding x by (auto simp add: indicators_of_sorted_def)
    }
  }
  {
    assume b: "i < length xs \<and> j < length xs \<and> timestamp (xs ! i) = timestamp (xs ! j)
        \<and> xs ! i \<noteq> xs ! j"
    then show "mset (xs[i := xs ! j, j := xs ! i]) = mset xs"
      using mset_swap [of j xs i] by simp
    from b show "calculate_technical_indicators srt (xs[i := xs ! j, j := xs ! i])
          \<noteq> calculate_technical_indicators srt xs"
      using swap_changes_output [of i xs j srt] by simp
  }
qed

theorem order_invariance_distinct_timestamps_witness:
  "distinct (map timestamp three_bars) \<and> mset (rotate1 three_bars) = mset three_bars
   \<and> sorted (map timestamp (rotate1 three_bars))
   \<and> calculate_technical_indicators stable_sorter (rotate1 three_bars) =
       calculate_technical_indicators stable_sorter (sort_values stable_sorter three_bars)
   \<and> calculate_technical_indicators stable_sorter (rotate1 three_bars) =
       calculate_technical_indicators stable_sorter three_bars
   \<and> calculate_technical_indicators stable_sorter (rotate1 three_bars) =
       calculate_technical_indicators reversing_sorter three_bars
   \<and> indicators_of_sorted (rotate1 three_bars) =
       calculate_technical_indicators stable_sorter three_bars
   \<and> length tie_series = 2 \<and> timestamp (tie_series ! 0) = timestamp (tie_series ! 1)
   \<and> tie_series ! 0 \<noteq> tie_series ! 1
   \<and> tie_series[0 := tie_series ! 1, 1 := tie_series ! 0] = rev tie_series
   \<and> mset (rev tie_series) = mset tie_series
   \<and> calculate_technical_indicators reversing_sorter (rev tie_series)
       \<noteq> calculate_technical_indicators reversing_sorter tie_series"
proof -
  have a: "distinct (map timestamp three_bars)"
    and b: "mset (rotate1 three_bars) = mset three_bars"
    and c: "sorted (map timestamp (rotate1 three_bars))"
    by (simp_all add: three_bars_def)
  have d: "length tie_series = 2" "timestamp (tie_series ! 0) = timestamp (tie_series ! 1)"
    "tie_series ! 0 \<noteq> tie_series ! 1"
    by (simp_all add: tie_series_def)
  note t1 = conjunct1 [OF order_invariance_distinct_timestamps
      [where xs = three_bars and ys = "rotate1 three_bars" and srt = stable_sorter
         and srt' = reversing_sorter]]
  note t2 = conjunct2 [OF order_invariance_distinct_timestamps
      [where xs = tie_series and i = 0 and j = 1 and srt = reversing_sorter]]
  have e: "mset (rev tie_series) = mset tie_series
     \<and> calculate_technical_indicators reversing_sorter (rev tie_series)
         \<noteq> calculate_technical_indicators reversing_sorter tie_series"
    using t2 d unfolding swap_tie_series by simp
  show ?thesis using a b c d e t1 swap_tie_series by blast
qed

subsection \<open>A constant series\<close>

lemma window_replicate:
  assumes "i < n"
  shows "window w (replicate n x) i = replicate (min w (Suc i)) x"
proof -
  have "window w (replicate n x) i = replicate (min (Suc i) n - (Suc i - w)) x"
    by (simp only: window_def take_replicate drop_replicate)
  moreover have "min (Suc i) n - (Suc i - w) = min w (Suc i)"
    using assms by (simp add: min_def)
  ultimately show ?thesis by simp
qed

lemma observations_replicate: "observations (replicate k (Fin c)) = replicate k c"
  by (induction k) (simp_all add: observations_def map_filter_def)

lemma mean_replicate: "0 < k \<Longrightarrow> mean (replicate k c) = c"
  by (simp add: mean_def sum_list_replicate)

lemma window_mean_replicate: "0 < k \<Longrightarrow> window_mean (replicate k (Fin c)) = Fin c"
  by (simp add: window_mean_def observations_replicate mean_replicate Let_def Suc_le_eq)

lemma window_std_replicate:
  "window_std (replicate k (Fin c)) = (if 1 < k then Fin 0 else NaN)"
proof (cases "1 < k")
  case True
  then have "mean (replicate k c) = c" by (simp add: mean_replicate)
  then have "sum_list (map (\<lambda>x. (x - mean (replicate k c)) ^ 2) (replicate k c)) = 0"
    by (simp add: sum_list_replicate)
  then show ?thesis using True
    by (simp add: window_std_def observations_replicate Let_def)
next
  case False
  then show ?thesis by (simp add: window_std_def observations_replicate Let_def)
qed

lemma rolling_mean_replicate:
  "0 < w \<Longrightarrow> rolling_mean w (replicate n (Fin c)) = replicate n (Fin c)"
  by (rule nth_equalityI) (simp_all add: rolling_mean_def window_replicate window_mean_replicate)

lemma nth_rolling_std_replicate:
  "0 < w \<Longrightarrow> i < n \<Longrightarrow>
     rolling_std w (replicate n (Fin c)) ! i = (if 1 < w \<and> 0 < i then Fin 0 else NaN)"
  by (auto simp add: rolling_std_def window_replicate window_std_replicate)

lemma diff_replicate:
  "diff (replicate (Suc n) (Fin c)) = NaN # replicate n (Fin 0)"
proof -
  have "map2 (\<lambda>prev cur. fsub cur prev) (replicate (Suc n) (Fin c)) (replicate n (Fin c)) =
          replicate n (Fin 0)"
    by (rule nth_equalityI) (auto simp add: fsub_def nth_Cons')
  then show ?thesis by (simp add: diff_def)
qed

lemma rsi_gain_replicate: "rsi_gain (replicate n (Fin c)) = replicate n (Fin 0)"
proof (cases n)
  case 0
  then show ?thesis by (simp add: rsi_gain_def diff_def rolling_mean_def)
next
  case (Suc m)
  have "map (\<lambda>d. if fgt d (Fin 0) then d else Fin 0) (NaN # replicate m (Fin 0)) =
          replicate (Suc m) (Fin 0)"
    by (simp add: fgt_def)
  then show ?thesis
    unfolding Suc rsi_gain_def diff_replicate by (simp only: rolling_mean_replicate zero_less_numeral)
qed

lemma rsi_loss_replicate: "rsi_loss (replicate n (Fin c)) = replicate n (Fin 0)"
proof (cases n)
  case 0
  then show ?thesis by (simp add: rsi_loss_def diff_def rolling_mean_def)
next
  case (Suc m)
  have "map fneg (map (\<lambda>d. if flt d (Fin 0) then d else Fin 0) (NaN # replicate m (Fin 0))) =
          replicate (Suc m) (Fin 0)"
    by simp
  then show ?thesis
    unfolding Suc rsi_loss_def diff_replicate by (simp only: rolling_mean_replicate zero_less_numeral)
qed

lemma rsi_column_replicate:
  "i < n \<Longrightarrow> rsi_column (replicate n (Fin c)) ! i = NaN"
  by (simp add: rsi_column_def rsi_gain_replicate rsi_loss_replicate rsi_of_zero_loss)

lemma map_constant:
  "\<forall>b\<in>set xs. f b = k \<Longrightarrow> map f xs = replicate (length xs) k"
  by (induction xs) auto

lemma closes_constant:
  assumes "\<forall>b\<in>set df. close b = Fin c"
  shows "map close (sort_values srt df) = replicate (length df) (Fin c)"
proof -
  have "set (sort_values srt df) = set df" by simp
  then have "\<forall>b\<in>set (sort_values srt df). close b = Fin c" using assms by simp
  then have "map close (sort_values srt df) = replicate (length (sort_values srt df)) (Fin c)"
    by (rule map_constant)
  then show ?thesis by simp
qed

lemma constant_rows:
  assumes c: "\<forall>b\<in>set df. close b = Fin c" and i: "i < length df"
  shows "rsi (calculate_technical_indicators srt df ! i) = NaN"
    and "trend (calculate_technical_indicators srt df ! i) = ''neutral''"
    and "bb_middle (calculate_technical_indicators srt df ! i) = Fin c"
    and "0 < i \<Longrightarrow> bb_upper (calculate_technical_indicators srt df ! i) = Fin c"
    and "0 < i \<Longrightarrow> bb_lower (calculate_technical_indicators srt df ! i) = Fin c"
    and "i = 0 \<Longrightarrow> bb_upper (calculate_technical_indicators srt df ! i) = NaN"
    and "i = 0 \<Longrightarrow> bb_lower (calculate_technical_indicators srt df ! i) = NaN"
proof -
  have j: "i < length (sort_values srt df)" using i by simp
  note n = calculate_nth [OF i]
  note cl = closes_constant [OF c]
  have ci: "close (sort_values srt df ! i) = Fin c"
    using arg_cong [OF cl, of "\<lambda>xs. xs ! i"] j i by simp
  show "rsi (calculate_technical_indicators srt df ! i) = NaN"
    unfolding n sorted_row_rsi_bands(1) [OF j] cl using i by (rule rsi_column_replicate)
  show "trend (calculate_technical_indicators srt df ! i) = ''neutral''"
    unfolding n sorted_row_rsi_bands(4) [OF j] cl ci using i
    by (simp add: rolling_mean_replicate trend_of_def fgt_def)
  have "window_mean (window 20 (replicate (length df) (Fin c)) i) =
          rolling_mean 20 (replicate (length df) (Fin c)) ! i"
    using i by (simp only: nth_rolling_mean length_replicate)
  also have "\<dots> = Fin c" using i by (simp add: rolling_mean_replicate)
  finally show "bb_middle (calculate_technical_indicators srt df ! i) = Fin c"
    unfolding n sorted_row_means(3) [OF j] cl .
  have up: "bb_upper (calculate_technical_indicators srt df ! i) =
      fadd (Fin c) (fmul (if 0 < i then Fin 0 else NaN) (Fin 2))"
    unfolding n sorted_row_rsi_bands(2) [OF j] cl using i
    by (simp add: bb_upper_column_def rolling_mean_replicate nth_rolling_std_replicate)
  have lo: "bb_lower (calculate_technical_indicators srt df ! i) =
      fsub (Fin c) (fmul (if 0 < i then Fin 0 else NaN) (Fin 2))"
    unfolding n sorted_row_rsi_bands(3) [OF j] cl using i
    by (simp add: bb_lower_column_def rolling_mean_replicate nth_rolling_std_replicate)
  show "0 < i \<Longrightarrow> bb_upper (calculate_technical_indicators srt df ! i) = Fin c"
    and "0 < i \<Longrightarrow> bb_lower (calculate_technical_indicators srt df ! i) = Fin c"
    and "i = 0 \<Longrightarrow> bb_upper (calculate_technical_indicators srt df ! i) = NaN"
    and "i = 0 \<Longrightarrow> bb_lower (calculate_technical_indicators srt df ! i) = NaN"
    using up lo by (simp_all add: fsub_def)
qed

text \<open>
  C2 (amended). The RSI computation never raises (the model has no error case: pandas
  divides by zero without an exception).  Where the 14-period mean loss is 0 and the mean
  gain is positive, rsi is 100; where the mean gain is 0 as well, rsi is NaN.  For a series all
  of whose closes equal one number, every row has rsi = NaN, trend = neutral and
  bb_middle = close; bb_upper and bb_lower equal bb_middle on every row after the first, and
  are NaN on the first row.
\<close>

theorem rsi_zero_loss_and_constant_series:
  "(\<forall>j<length closes. \<forall>g. rsi_loss closes ! j = Fin 0 \<and> rsi_gain closes ! j = Fin g \<and> 0 \<le> g \<longrightarrow>
       rsi_column closes ! j = (if 0 < g then Fin 100 else NaN))
   \<and> ((\<forall>b\<in>set df. close b = Fin c) \<longrightarrow>
       (\<forall>i<length df.
           rsi (calculate_technical_indicators srt df ! i) = NaN
         \<and> trend (calculate_technical_indicators srt df ! i) = ''neutral''
         \<and> bb_middle (calculate_technical_indicators srt df ! i) = Fin c
         \<and> (0 < i \<longrightarrow> bb_upper (calculate_technical_indicators srt df ! i) = Fin c
                   \<and> bb_lower (calculate_technical_indicators srt df ! i) = Fin c)
         \<and> (i = 0 \<longrightarrow> bb_upper (calculate_technical_indicators srt df ! i) = NaN
                   \<and> bb_lower (calculate_technical_indicators srt df ! i) = NaN)))"
proof (intro conjI allI impI)
  fix j g
  assume "j < length closes"
    and "rsi_loss closes ! j = Fin 0 \<and> rsi_gain closes ! j = Fin g \<and> 0 \<le> g"
  then show "rsi_column closes ! j = (if 0 < g then Fin 100 else NaN)"
    by (auto simp add: nth_rsi_column rsi_of_zero_loss)
next
  fix i
  assume c: "\<forall>b\<in>set df. close b = Fin c" and i: "i < length df"
  note r = constant_rows [OF c i]
  show "rsi (calculate_technical_indicators srt df ! i) = NaN"
    and "trend (calculate_technical_indicators srt df ! i) = ''neutral''"
    and "bb_middle (calculate_technical_indicators srt df ! i) = Fin c"
    by (rule r)+
  show "0 < i \<Longrightarrow> bb_upper (calculate_technical_indicators srt df ! i) = Fin c"
    and "0 < i \<Longrightarrow> bb_lower (calculate_technical_indicators srt df ! i) = Fin c"
    and "i = 0 \<Longrightarrow> bb_upper (calculate_technical_indicators srt df ! i) = NaN"
    and "i = 0 \<Longrightarrow> bb_lower (calculate_technical_indicators srt df ! i) = NaN"
    by (rule r, assumption)+
qed

lemma const_series_closes: "\<forall>b\<in>set const_series. close b = Fin 100"
  by (simp add: const_series_def)

lemma rising_gain_loss:
  "rsi_loss [Fin 10, Fin 20] ! 1 = Fin 0" "rsi_gain [Fin 10, Fin 20] ! 1 = Fin 5"
  by (simp_all add: rsi_loss_def rsi_gain_def diff_def fsub_def fgt_def rolling_mean_def
      window_def window_mean_def observations_def map_filter_def mean_def upt_rec)

theorem rsi_zero_loss_and_constant_series_witness:
  "rsi_loss [Fin 10, Fin 20] ! 1 = Fin 0 \<and> rsi_gain [Fin 10, Fin 20] ! 1 = Fin 5
   \<and> rsi_column [Fin 10, Fin 20] ! 1 = Fin 100
   \<and> length const_series = 20 \<and> map close const_series = replicate 20 (Fin 100)
   \<and> rsi (calculate_technical_indicators stable_sorter const_series ! 1) = NaN
   \<and> trend (calculate_technical_indicators stable_sorter const_series ! 1) = ''neutral''
   \<and> bb_upper (calculate_technical_indicators stable_sorter const_series ! 1) = Fin 100
   \<and> bb_lower (calculate_technical_indicators stable_sorter const_series ! 1) = Fin 100
   \<and> bb_upper (calculate_technical_indicators stable_sorter const_series ! 0) = NaN"
proof -
  note t = rsi_zero_loss_and_constant_series [of "[Fin 10, Fin 20]" const_series 100 stable_sorter]
  have l: "length const_series = 20" by (simp add: const_series_def)
  have m: "map close const_series = replicate 20 (Fin 100)"
    using map_constant [OF const_series_closes] l by simp
  have a: "rsi_column [Fin 10, Fin 20] ! 1 = Fin 100"
    using conjunct1 [OF t, rule_format, of 1 5] rising_gain_loss by simp
  have b1: "(1::nat) < length const_series" and b0: "(0::nat) < length const_series"
    by (simp_all add: l)
  note r1 = conjunct2 [OF t, THEN mp, OF const_series_closes, rule_format, OF b1]
  note r0 = conjunct2 [OF t, THEN mp, OF const_series_closes, rule_format, OF b0]
  have "rsi (calculate_technical_indicators stable_sorter const_series ! 1) = NaN
     \<and> trend (calculate_technical_indicators stable_sorter const_series ! 1) = ''neutral''
     \<and> bb_upper (calculate_technical_indicators stable_sorter const_series ! 1) = Fin 100
     \<and> bb_lower (calculate_technical_indicators stable_sorter const_series ! 1) = Fin 100
     \<and> bb_upper (calculate_technical_indicators stable_sorter const_series ! 0) = NaN"
    using r1 r0 by simp
  then show ?thesis using a rising_gain_loss l m by simp
qed

text \<open>
  C2 as stated fails: in a series of twenty rows all closing at 100 the second row has
  rsi = NaN, not 100 (gain and loss are both 0), and on the first row the Bollinger bands are
  NaN, so bb_upper == bb_lower is false there.
\<close>

theorem constant_series_rsi_is_nan:
  "length const_series = 20 \<and> map close const_series = replicate 20 (Fin 100)
   \<and> rsi (calculate_technical_indicators stable_sorter const_series ! 1) = NaN
   \<and> rsi (calculate_technical_indicators stable_sorter const_series ! 1) \<noteq> Fin 100
   \<and> \<not> feq (bb_upper (calculate_technical_indicators stable_sorter const_series ! 0))
            (bb_lower (calculate_technical_indicators stable_sorter const_series ! 0))"
proof -
  have l: "length const_series = 20" by (simp add: const_series_def)
  have m: "map close const_series = replicate 20 (Fin 100)"
    using map_constant [OF const_series_closes] l by simp
  have "rsi (calculate_technical_indicators stable_sorter const_series ! 1) = NaN"
    by (rule constant_rows(1) [OF const_series_closes]) (simp add: l)
  moreover have "bb_upper (calculate_technical_indicators stable_sorter const_series ! 0) = NaN"
    by (rule constant_rows(6) [OF const_series_closes]) (simp_all add: l)
  ultimately show ?thesis using l m by simp
qed

section \<open>The empty portfolio\<close>

lemma lit_03: "py_lit (3 / 10) = Fin d03"
  unfolding py_lit_def d03_def by (subst rnd64_normal [of "- 2"]) (simp_all add: round_half_even_def Let_def)

lemma lit_04: "py_lit (2 / 5) = Fin d04"
  unfolding py_lit_def d04_def by (subst rnd64_normal [of "- 2"]) (simp_all add: round_half_even_def Let_def)

lemma avg_confidence_empty: "avg_confidence [] = NaN"
  by (simp add: avg_confidence_def np_mean_def pairwise_sum.simps np_div_def inf_of_sign_def)

lemma buy_ratio_empty: "buy_ratio [] = Fin 0"
  by (simp add: buy_ratio_def)

lemma portfolio_recommendation_empty:
  "get_portfolio_recommendation [] =
     \<lparr>p_action = ''DEFENSIVE'',
      p_rationale = ''Weak signals, consider defensive positioning'',
      suggested_allocation = ''30% stocks, 70% bonds/cash''\<rparr>"
  by (simp add: get_portfolio_recommendation_def buy_ratio_empty avg_confidence_empty
      lit_03 lit_04 lit_06 fgt_def d03_def d04_def d06_def)

text \<open>
  C1 (amended). For the empty portfolio map the aggregation returns zero BUY, SELL and WAIT
  counts, overall sentiment neutral and the portfolio action DEFENSIVE: buy_ratio is guarded
  to 0, which is below 0.3.  The average confidence is NaN (\<^verbatim>\<open>np.mean\<close> of no values), obtained
  without an exception.
\<close>

theorem empty_portfolio:
  "analyze_multiple_stocks srt llm now [] =
     \<lparr>individual_analyses = [],
      portfolio_summary =
        \<lparr>total_stocks = 0, buy_recommendations = 0, sell_recommendations = 0,
         wait_recommendations = 0, overall_sentiment = ''neutral''\<rparr>,
      portfolio_recommendation =
        \<lparr>p_action = ''DEFENSIVE'',
         p_rationale = ''Weak signals, consider defensive positioning'',
         suggested_allocation = ''30% stocks, 70% bonds/cash''\<rparr>,
      analysis_date = now\<rparr>
   \<and> buy_ratio ([] :: (string \<times> market_insights) list) = Fin 0
   \<and> avg_confidence ([] :: (string \<times> market_insights) list) = NaN"
  by (simp add: analyze_multiple_stocks_def Let_def count_recommendation_def
      portfolio_recommendation_empty buy_ratio_empty avg_confidence_empty)

text \<open>
  C1 as stated fails: the portfolio action for the empty map is DEFENSIVE, not WAIT.
\<close>

theorem empty_portfolio_is_not_wait:
  "p_action (portfolio_recommendation (analyze_multiple_stocks stable_sorter (\<lambda>prompt. None) '''' [])) \<noteq> ''WAIT''
   \<and> p_action (get_portfolio_recommendation ([] :: (string \<times> analysis) list)) = ''DEFENSIVE''"
  by (simp add: analyze_multiple_stocks_def Let_def portfolio_recommendation_empty)

end
